theory Spec2Isabelle
  imports Complex_Main "HOL-Library.Word" "HOL-Library.Multiset"
begin

unbundle bit_operations_syntax

section \<open>JavaScript values used by the handlers\<close>

text \<open>
  A JavaScript string is a sequence of UTF-16 code units; \<open>length\<close>, \<open>substring\<close> and
  \<open>padEnd\<close> count code units. A property that may be \<open>undefined\<close> or \<open>null\<close> is an
  \<open>option\<close>. \<open>asc\<close> writes an ASCII literal of the source as a JavaScript string.
\<close>

type_synonym jsstring = "16 word list"
type_synonym byte = "8 word"

definition asc :: "string \<Rightarrow> jsstring" where
  "asc s = map (\<lambda>c. of_nat (of_char c)) s"

text \<open>\<open>!x\<close> for a value that is a string or absent: \<open>undefined\<close> and \<open>''\<close> are falsy.\<close>

fun falsy :: "jsstring option \<Rightarrow> bool" where
  "falsy None = True"
| "falsy (Some s) = (s = [])"

text \<open>\<open>a || b\<close> on strings that may be absent.\<close>

fun or_else :: "jsstring option \<Rightarrow> jsstring \<Rightarrow> jsstring" where
  "or_else None d = d"
| "or_else (Some s) d = (if s = [] then d else s)"

section \<open>Token authority\<close>

subsection \<open>\<^verbatim>\<open>Buffer.from(s, 'utf8')\<close>: UTF-8 encoding of a JavaScript string\<close>

text \<open>
  The runtime encodes a surrogate pair as one four-byte sequence, a lone surrogate as the
  replacement character U+FFFD (\<open>EF BF BD\<close>), and every other code unit as one, two or
  three bytes.
\<close>

definition is_high :: "16 word \<Rightarrow> bool" where
  "is_high u = (0xD800 \<le> u \<and> u \<le> 0xDBFF)"

definition is_low :: "16 word \<Rightarrow> bool" where
  "is_low u = (0xDC00 \<le> u \<and> u \<le> 0xDFFF)"

definition utf8_unit :: "16 word \<Rightarrow> byte list" where
  "utf8_unit u =
     (if u < 0x80 then [ucast u]
      else if u < 0x800 then [0xC0 OR ucast (drop_bit 6 u), 0x80 OR ucast (u AND 0x3F)]
      else if is_high u \<or> is_low u then [0xEF, 0xBF, 0xBD]
      else [0xE0 OR ucast (drop_bit 12 u),
            0x80 OR ucast (drop_bit 6 u AND 0x3F),
            0x80 OR ucast (u AND 0x3F)])"

definition utf8_pair :: "16 word \<Rightarrow> 16 word \<Rightarrow> byte list" where
  "utf8_pair hi lo =
     (let c = (0x10000 :: 32 word) + push_bit 10 (ucast (hi AND 0x3FF)) + ucast (lo AND 0x3FF)
      in [0xF0 OR ucast (drop_bit 18 c),
          0x80 OR ucast (drop_bit 12 c AND 0x3F),
          0x80 OR ucast (drop_bit 6 c AND 0x3F),
          0x80 OR ucast (c AND 0x3F)])"

fun utf8 :: "jsstring \<Rightarrow> byte list" where
  "utf8 [] = []"
| "utf8 [u] = utf8_unit u"
| "utf8 (u # v # vs) =
     (if is_high u \<and> is_low v then utf8_pair u v @ utf8 vs
      else utf8_unit u @ utf8 (v # vs))"

subsection \<open>\<^verbatim>\<open>crypto.createHmac('sha256', key).update(msg).digest('hex')\<close>\<close>

text \<open>
  The runtime's HMAC (RFC 2104) over SHA-256 (FIPS 180-4), on bytes: 64-byte blocks,
  big-endian 32-bit words, a 64-round compression function; the round constants are the
  leading fractional bits of the cube roots of the first 64 primes.
\<close>

type_synonym u32 = "32 word"

definition K :: "u32 list" where
  "K = [0x428A2F98, 0x71374491, 0xB5C0FBCF, 0xE9B5DBA5, 0x3956C25B, 0x59F111F1,
      0x923F82A4, 0xAB1C5ED5, 0xD807AA98, 0x12835B01, 0x243185BE, 0x550C7DC3,
      0x72BE5D74, 0x80DEB1FE, 0x9BDC06A7, 0xC19BF174, 0xE49B69C1, 0xEFBE4786,
      0x0FC19DC6, 0x240CA1CC, 0x2DE92C6F, 0x4A7484AA, 0x5CB0A9DC, 0x76F988DA,
      0x983E5152, 0xA831C66D, 0xB00327C8, 0xBF597FC7, 0xC6E00BF3, 0xD5A79147,
      0x06CA6351, 0x14292967, 0x27B70A85, 0x2E1B2138, 0x4D2C6DFC, 0x53380D13,
      0x650A7354, 0x766A0ABB, 0x81C2C92E, 0x92722C85, 0xA2BFE8A1, 0xA81A664B,
      0xC24B8B70, 0xC76C51A3, 0xD192E819, 0xD6990624, 0xF40E3585, 0x106AA070,
      0x19A4C116, 0x1E376C08, 0x2748774C, 0x34B0BCB5, 0x391C0CB3, 0x4ED8AA4A,
      0x5B9CCA4F, 0x682E6FF3, 0x748F82EE, 0x78A5636F, 0x84C87814, 0x8CC70208,
      0x90BEFFFA, 0xA4506CEB, 0xBEF9A3F7, 0xC67178F2]"

type_synonym hstate = "u32 \<times> u32 \<times> u32 \<times> u32 \<times> u32 \<times> u32 \<times> u32 \<times> u32"

definition H0 :: hstate where
  "H0 = (0x6A09E667, 0xBB67AE85, 0x3C6EF372, 0xA54FF53A,
         0x510E527F, 0x9B05688C, 0x1F83D9AB, 0x5BE0CD19)"

definition rotr :: "nat \<Rightarrow> u32 \<Rightarrow> u32" where
  "rotr n x = drop_bit n x OR push_bit (32 - n) x"

definition ch :: "u32 \<Rightarrow> u32 \<Rightarrow> u32 \<Rightarrow> u32" where
  "ch x y z = (x AND y) XOR (NOT x AND z)"

definition maj :: "u32 \<Rightarrow> u32 \<Rightarrow> u32 \<Rightarrow> u32" where
  "maj x y z = (x AND y) XOR (x AND z) XOR (y AND z)"

definition bsig0 :: "u32 \<Rightarrow> u32" where
  "bsig0 x = rotr 2 x XOR rotr 13 x XOR rotr 22 x"

definition bsig1 :: "u32 \<Rightarrow> u32" where
  "bsig1 x = rotr 6 x XOR rotr 11 x XOR rotr 25 x"

definition ssig0 :: "u32 \<Rightarrow> u32" where
  "ssig0 x = rotr 7 x XOR rotr 18 x XOR drop_bit 3 x"

definition ssig1 :: "u32 \<Rightarrow> u32" where
  "ssig1 x = rotr 17 x XOR rotr 19 x XOR drop_bit 10 x"

fun be_words :: "byte list \<Rightarrow> u32 list" where
  "be_words (a # b # c # d # rest) =
     (push_bit 24 (ucast a) OR push_bit 16 (ucast b) OR push_bit 8 (ucast c) OR ucast d)
       # be_words rest"
| "be_words _ = []"

fun schedule :: "nat \<Rightarrow> u32 list \<Rightarrow> u32 list" where
  "schedule 0 w = w"
| "schedule (Suc n) w =
     (let t = length w
      in schedule n (w @ [ssig1 (w ! (t - 2)) + w ! (t - 7) + ssig0 (w ! (t - 15)) + w ! (t - 16)]))"

fun sha_round :: "hstate \<Rightarrow> u32 \<times> u32 \<Rightarrow> hstate" where
  "sha_round (a, b, c, d, e, f, g, h) (k, w) =
     (let t1 = h + bsig1 e + ch e f g + k + w;
          t2 = bsig0 a + maj a b c
      in (t1 + t2, a, b, c, d + t1, e, f, g))"

fun add_state :: "hstate \<Rightarrow> hstate \<Rightarrow> hstate" where
  "add_state (a, b, c, d, e, f, g, h) (a', b', c', d', e', f', g', h') =
     (a + a', b + b', c + c', d + d', e + e', f + f', g + g', h + h')"

definition compress :: "hstate \<Rightarrow> byte list \<Rightarrow> hstate" where
  "compress s block = add_state s (foldl sha_round s (zip K (schedule 48 (be_words block))))"

definition be_bytes64 :: "64 word \<Rightarrow> byte list" where
  "be_bytes64 w = map (\<lambda>i. ucast (drop_bit (8 * (7 - i)) w)) [0..<8]"

definition sha_pad :: "byte list \<Rightarrow> byte list" where
  "sha_pad m = m @ [0x80] @ replicate ((119 - length m mod 64) mod 64) 0
                 @ be_bytes64 (of_nat (8 * length m))"

fun hash_blocks :: "nat \<Rightarrow> hstate \<Rightarrow> byte list \<Rightarrow> hstate" where
  "hash_blocks 0 s bs = s"
| "hash_blocks (Suc n) s bs = hash_blocks n (compress s (take 64 bs)) (drop 64 bs)"

definition be_bytes32 :: "u32 \<Rightarrow> byte list" where
  "be_bytes32 w = [ucast (drop_bit 24 w), ucast (drop_bit 16 w), ucast (drop_bit 8 w), ucast w]"

fun state_bytes :: "hstate \<Rightarrow> byte list" where
  "state_bytes (a, b, c, d, e, f, g, h) =
     concat (map be_bytes32 [a, b, c, d, e, f, g, h])"

definition sha256 :: "byte list \<Rightarrow> byte list" where
  "sha256 m = (let p = sha_pad m in state_bytes (hash_blocks (length p div 64) H0 p))"

definition hmac_sha256 :: "byte list \<Rightarrow> byte list \<Rightarrow> byte list" where
  "hmac_sha256 key msg =
     (let k0 = (if length key > 64 then sha256 key else key);
          k = k0 @ replicate (64 - length k0) 0
      in sha256 (map (\<lambda>b. b XOR 0x5C) k @ sha256 (map (\<lambda>b. b XOR 0x36) k @ msg)))"

definition hexdigit :: "nat \<Rightarrow> 16 word" where
  "hexdigit n = of_nat (if n < 10 then 48 + n else 87 + n)"

definition hex :: "byte list \<Rightarrow> jsstring" where
  "hex bs = concat (map (\<lambda>b. [hexdigit (unat b div 16), hexdigit (unat b mod 16)]) bs)"

subsection \<open>\<open>validateToken\<close>\<close>

text \<open>
  The values the handlers throw and catch: the \<open>RangeError\<close> of
  \<^verbatim>\<open>crypto.timingSafeEqual\<close>; the rejection of an awaited promise (a network error of
  \<open>fetch\<close>, a body that cannot be read or parsed), with its message; and the
  \<^verbatim>\<open>new Error(`HubSpot file upload failed: ${status} ${text}`)\<close> of the upload step.

  \<^verbatim>\<open>crypto.timingSafeEqual(a, b)\<close> throws a \<open>RangeError\<close> when the two buffers differ in
  byte length, and otherwise tells whether they are equal.
\<close>

datatype js_error =
    RangeError
  | Rejected jsstring
  | UploadFailed nat jsstring

definition timingSafeEqual :: "byte list \<Rightarrow> byte list \<Rightarrow> js_error + bool" where
  "timingSafeEqual a b = (if length a \<noteq> length b then Inl RangeError else Inr (a = b))"

text \<open>\<^verbatim>\<open>s.substring(0, n)\<close> and \<^verbatim>\<open>s.padEnd(n, c)\<close> for a one-unit filler.\<close>

definition substring0 :: "nat \<Rightarrow> jsstring \<Rightarrow> jsstring" where
  "substring0 n s = take n s"

definition padEnd :: "nat \<Rightarrow> 16 word \<Rightarrow> jsstring \<Rightarrow> jsstring" where
  "padEnd n c s = s @ replicate (n - length s) c"

text \<open>
  \<^verbatim>\<open>crypto.createHmac('sha256', secret).update(String(dealId)).digest('hex').substring(0, 16)\<close>.
  The deal id is a string here (\<open>String\<close> leaves a string as it is).
\<close>

definition expected_token :: "jsstring \<Rightarrow> jsstring \<Rightarrow> jsstring" where
  "expected_token secret dealId = substring0 16 (hex (hmac_sha256 (utf8 secret) (utf8 dealId)))"

text \<open>
  \<open>validateToken(dealId, token)\<close>, with \<^verbatim>\<open>process.env.PO_QUOTE_SECRET\<close> as its first
  argument. The result is \<open>Inl\<close> when the call throws.
\<close>

fun validateToken :: "jsstring option \<Rightarrow> jsstring \<Rightarrow> jsstring option \<Rightarrow> js_error + bool" where
  "validateToken None dealId token = Inr False"
| "validateToken (Some secret) dealId None = Inr False"
| "validateToken (Some secret) dealId (Some token) =
     (if secret = [] \<or> token = [] then Inr False
      else timingSafeEqual
             (utf8 (expected_token secret dealId))
             (utf8 (padEnd 16 0x30 (substring0 16 token))))"

section \<open>Association edges and role resolution\<close>

text \<open>
  An entry of the CRM's association list:
  \<^verbatim>\<open>{ toObjectId, associationTypes: [{ label, typeId }] }\<close>.
  \<open>associationTypes\<close> may be missing (the source reads \<^verbatim>\<open>r.associationTypes || []\<close>)
  and a label may be \<open>null\<close>.
\<close>

record association_type =
  label :: "jsstring option"
  typeId :: int

record association =
  toObjectId :: int
  associationTypes :: "association_type list option"

definition types_of :: "association \<Rightarrow> association_type list" where
  "types_of r = (case associationTypes r of None \<Rightarrow> [] | Some ts \<Rightarrow> ts)"

text \<open>\<^verbatim>\<open>(r.associationTypes || []).some(a => a.label === l)\<close>\<close>

definition has_label :: "jsstring \<Rightarrow> association \<Rightarrow> bool" where
  "has_label l r = list_ex (\<lambda>a. label a = Some l) (types_of r)"

text \<open>\<^verbatim>\<open>allAssocs.find(r => (r.associationTypes || []).some(a => a.label === 'Payer'))\<close>\<close>

definition payerAssoc :: "association list \<Rightarrow> association option" where
  "payerAssoc allAssocs = find (has_label (asc ''Payer'')) allAssocs"

text \<open>
  \<^verbatim>\<open>allAssocs.find(r => (r.associationTypes || []).some(a => a.label === 'Primary Contact'))
    || allAssocs[0]\<close>: an entry is an object, hence truthy, so the right operand is taken
  only when \<open>find\<close> returns \<open>undefined\<close>; \<open>allAssocs[0]\<close> of an empty array is
  \<open>undefined\<close>.
\<close>

definition primaryAssoc :: "association list \<Rightarrow> association option" where
  "primaryAssoc allAssocs =
     (case find (has_label (asc ''Primary Contact'')) allAssocs of
        Some r \<Rightarrow> Some r
      | None \<Rightarrow> (case allAssocs of [] \<Rightarrow> None | r # _ \<Rightarrow> Some r))"

text \<open>The contacts of the specification's examples: an id and a list of labels.\<close>

definition contact :: "int \<Rightarrow> string list \<Rightarrow> association" where
  "contact i ls =
     \<lparr>toObjectId = i,
      associationTypes = Some (map (\<lambda>l. \<lparr>label = Some (asc l), typeId = 0\<rparr>) ls)\<rparr>"

text \<open>The contacts of the specification's role-resolution example.\<close>

definition example_contacts :: "association list" where
  "example_contacts = [contact 1 [], contact 2 [''Primary Contact''], contact 3 [''Payer'']]"


section \<open>Line items and the total\<close>

text \<open>
  A resolved line item, after the handlers' coercion
  (\<^verbatim>\<open>parseFloat(...) || 0\<close>, \<^verbatim>\<open>parseInt(...) || 1\<close>): its numbers are never \<open>NaN\<close>.
  The type of numbers is a parameter of the item and of the total, which asks of it only
  an addition, a multiplication and a zero, and no law of arithmetic: what is proved of
  the total holds for IEEE doubles with their rounding, the sum being taken from left
  to right as \<open>reduce\<close> takes it. The handlers and the examples use exact reals, which
  agree with doubles wherever every intermediate value is exactly representable
  (integers below \<open>2^53\<close>, as in the specification's example).
\<close>

record 'n line_item =
  item_id :: "jsstring option"
  item_name :: jsstring
  price :: 'n
  quantity :: 'n
  amount :: 'n

text \<open>\<^verbatim>\<open>a || b\<close> on numbers that are not \<open>NaN\<close>: \<open>0\<close> is the only falsy one.\<close>

definition num_or :: "'n::zero \<Rightarrow> 'n \<Rightarrow> 'n" where
  "num_or a b = (if a = 0 then b else a)"

text \<open>
  \<^verbatim>\<open>lineItems.reduce((sum, item) => sum + (item.amount || item.price * item.quantity), 0)\<close>
\<close>

definition total :: "('n::{plus,times,zero}) line_item list \<Rightarrow> 'n" where
  "total lineItems =
     foldl (\<lambda>sum item. sum + num_or (amount item) (price item * quantity item)) 0 lineItems"

definition item :: "'n \<Rightarrow> 'n \<Rightarrow> 'n \<Rightarrow> 'n line_item" where
  "item p q a = \<lparr>item_id = None, item_name = asc ''Item'', price = p, quantity = q, amount = a\<rparr>"

section \<open>External calls\<close>

text \<open>
  The handlers talk to the CRM and to two webhooks through \<open>fetch\<close>. A call either
  rejects (a network error) or yields a response: a status, and a body that is read
  later with \<open>json()\<close> or \<open>text()\<close>. Reading a body can reject as well; a body that
  lacks the shape the handler dereferences is counted as unreadable.
\<close>

datatype 'a body = Unreadable jsstring | Body 'a

datatype 'a fetch_result = NetworkError jsstring | Response nat "'a body" "jsstring body"

text \<open>\<open>res.ok\<close>\<close>

definition ok :: "nat \<Rightarrow> bool" where
  "ok st = (200 \<le> st \<and> st \<le> 299)"

record deal =
  deal_id :: "jsstring option"
  dealname :: "jsstring option"
  po_quote_title :: "jsstring option"
  po_quote_addressee :: "jsstring option"
  po_quote_notes :: "jsstring option"
  po_quote_status :: "jsstring option"
  po_quote_link :: "jsstring option"
  po_document_url :: "jsstring option"
  po_received_date :: "jsstring option"

record contact_props =
  contact_id :: "jsstring option"
  email :: "jsstring option"
  firstname :: "jsstring option"
  lastname :: "jsstring option"

record upload_data =
  file_id :: "jsstring option"
  file_url :: "jsstring option"

record raw_item =
  raw_id :: "jsstring option"
  raw_name :: "jsstring option"
  raw_price :: "jsstring option"
  raw_quantity :: "jsstring option"
  raw_amount :: "jsstring option"

record recipients =
  contactEmail :: jsstring
  contactName :: jsstring
  ccEmail :: jsstring
  ccName :: jsstring

text \<open>
  The external calls a handler makes, in order, with the arguments that identify them:
  the deal read, an association list of a deal (by edge type), the batch read of line
  items, a contact read, the file upload (stored name, type, size), the note, the
  property patch (document URL, file reference), the purchase-order notification
  webhook, and the error-alert webhook (endpoint, error).
\<close>

datatype call =
    GetDeal jsstring
  | GetAssociations jsstring jsstring
  | BatchRead "int list"
  | GetContact int
  | UploadFile jsstring jsstring nat
  | CreateNote jsstring "jsstring option"
  | PatchDeal jsstring "jsstring option" "jsstring option"
  | NotifyPO jsstring jsstring jsstring recipients
  | ErrorAlert jsstring js_error

text \<open>What the outside world answers at each call site of a handler.\<close>

record world =
  w_deal :: "deal fetch_result"
  w_line_items :: "association list option fetch_result"
  w_batch :: "raw_item list option fetch_result"
  w_contacts :: "association list option fetch_result"
  w_payer :: "contact_props fetch_result"
  w_primary :: "contact_props fetch_result"
  w_upload :: "upload_data fetch_result"
  w_note :: "unit fetch_result"
  w_patch :: "unit fetch_result"
  w_notify :: "unit fetch_result"
  w_alert :: "unit fetch_result"

text \<open>\<^verbatim>\<open>process.env\<close>\<close>

record env =
  PO_QUOTE_SECRET :: "jsstring option"
  HUBSPOT_TOKEN :: "jsstring option"

text \<open>
  A piece of handler code: the calls it makes, and the value it yields or the error it
  throws. \<open>and_then\<close> is sequencing under \<open>await\<close>, \<open>try_catch\<close> is
  \<^verbatim>\<open>try { ... } catch (e) { ... }\<close>.
\<close>

type_synonym 'a io = "call list \<times> (js_error + 'a)"

definition ret :: "'a \<Rightarrow> 'a io" where
  "ret x = ([], Inr x)"

definition throw :: "js_error \<Rightarrow> 'a io" where
  "throw e = ([], Inl e)"

definition and_then :: "'a io \<Rightarrow> ('a \<Rightarrow> 'b io) \<Rightarrow> 'b io" where
  "and_then m f =
     (case m of
        (cs, Inl e) \<Rightarrow> (cs, Inl e)
      | (cs, Inr x) \<Rightarrow> (case f x of (cs', r) \<Rightarrow> (cs @ cs', r)))"

definition try_catch :: "'a io \<Rightarrow> (js_error \<Rightarrow> 'a io) \<Rightarrow> 'a io" where
  "try_catch m h =
     (case m of
        (cs, Inl e) \<Rightarrow> (case h e of (cs', r) \<Rightarrow> (cs @ cs', r))
      | (cs, Inr x) \<Rightarrow> (cs, Inr x))"

definition fetch :: "call \<Rightarrow> 'a fetch_result \<Rightarrow> (nat \<times> 'a body \<times> jsstring body) io" where
  "fetch c r =
     ([c], case r of NetworkError m \<Rightarrow> Inl (Rejected m) | Response st js tx \<Rightarrow> Inr (st, js, tx))"

definition await_body :: "'a body \<Rightarrow> 'a io" where
  "await_body b = ([], case b of Unreadable m \<Rightarrow> Inl (Rejected m) | Body x \<Rightarrow> Inr x)"

text \<open>
  \<open>reportError\<close>: a best-effort post to the error-alert webhook, its own failure
  swallowed.
\<close>

definition reportError :: "world \<Rightarrow> jsstring \<Rightarrow> js_error \<Rightarrow> unit io" where
  "reportError w endpoint error =
     try_catch
       (and_then (fetch (ErrorAlert endpoint error) (w_alert w)) (\<lambda>r. ret ()))
       (\<lambda>e. ret ())"

text \<open>
  The request: its method, and the fields of \<^verbatim>\<open>req.body\<close> (write endpoint) or
  \<^verbatim>\<open>req.query\<close> (read endpoint), each a string or absent. What a handler answers:
  a status with a body, or nothing when an error escapes it.
\<close>

record request =
  req_method :: jsstring
  dealId :: "jsstring option"
  token :: "jsstring option"
  fileName :: "jsstring option"
  fileType :: "jsstring option"
  fileData :: "jsstring option"

record contact_view =
  cv_id :: "jsstring option"
  cv_name :: jsstring
  cv_email :: "jsstring option"

record review_view =
  v_dealId :: "jsstring option"
  v_dealName :: jsstring
  v_total :: real
  v_lineItems :: "real line_item list"
  v_primaryContact :: "contact_view option"
  v_payerContact :: "contact_view option"
  v_addressee :: jsstring
  v_title :: jsstring
  v_notes :: jsstring
  v_poQuoteStatus :: "jsstring option"
  v_poQuoteLink :: "jsstring option"
  v_poDocumentUrl :: "jsstring option"
  v_poReceivedDate :: "jsstring option"

datatype reply_body =
    Empty
  | ErrorJson jsstring "js_error option"
  | UploadOk "jsstring option"
  | ReviewOk review_view

datatype result = Replied nat reply_body | Uncaught js_error

type_synonym outcome = "call list \<times> result"

definition finish :: "(nat \<times> reply_body) io \<Rightarrow> outcome" where
  "finish m =
     (case m of
        (cs, Inl e) \<Rightarrow> (cs, Uncaught e)
      | (cs, Inr (st, b)) \<Rightarrow> (cs, Replied st b))"

text \<open>The string of a field that has been tested truthy.\<close>

fun text_of :: "jsstring option \<Rightarrow> jsstring" where
  "text_of None = []"
| "text_of (Some s) = s"

text \<open>\<open>x || null\<close> on a string that may be absent.\<close>

fun or_null :: "jsstring option \<Rightarrow> jsstring option" where
  "or_null None = None"
| "or_null (Some s) = (if s = [] then None else Some s)"

section \<open>The write endpoint: \<open>upload-po\<close>\<close>

text \<open>\<open>String.prototype.trim\<close>: white space and line terminators.\<close>

definition is_ws :: "16 word \<Rightarrow> bool" where
  "is_ws c = (c \<in> set [0x09, 0x0A, 0x0B, 0x0C, 0x0D, 0x20, 0xA0, 0x1680, 0x2000, 0x2001,
                 0x2002, 0x2003, 0x2004, 0x2005, 0x2006, 0x2007, 0x2008, 0x2009, 0x200A,
                 0x2028, 0x2029, 0x202F, 0x205F, 0x3000, 0xFEFF])"

definition trim :: "jsstring \<Rightarrow> jsstring" where
  "trim s = rev (dropWhile is_ws (rev (dropWhile is_ws s)))"

text \<open>\<^verbatim>\<open>`${p.properties.firstname || ''} ${p.properties.lastname || ''}`.trim()\<close>\<close>

definition spaced_name :: "contact_props \<Rightarrow> jsstring" where
  "spaced_name p = trim (or_else (firstname p) [] @ asc '' '' @ or_else (lastname p) [])"

definition no_recipients :: recipients where
  "no_recipients = \<lparr>contactEmail = [], contactName = [], ccEmail = [], ccName = []\<rparr>"

definition payer_details :: "world \<Rightarrow> recipients \<Rightarrow> association option \<Rightarrow> recipients io" where
  "payer_details w rc payerA =
     (case payerA of
        None \<Rightarrow> ret rc
      | Some a \<Rightarrow>
          and_then (fetch (GetContact (toObjectId a)) (w_payer w)) (\<lambda>(st, js, tx).
            if ok st then
              and_then (await_body js) (\<lambda>p.
                ret (rc\<lparr>contactEmail := or_else (email p) [], contactName := spaced_name p\<rparr>))
            else ret rc))"

definition primary_details :: "world \<Rightarrow> recipients \<Rightarrow> association option \<Rightarrow> recipients io" where
  "primary_details w rc primaryA =
     (case primaryA of
        None \<Rightarrow> ret rc
      | Some a \<Rightarrow>
          and_then (fetch (GetContact (toObjectId a)) (w_primary w)) (\<lambda>(st, js, tx).
            if ok st then
              and_then (await_body js) (\<lambda>c.
                let primaryEmail = or_else (email c) [];
                    primaryName = spaced_name c
                in if contactEmail rc = [] then
                     ret (rc\<lparr>contactEmail := primaryEmail, contactName := primaryName\<rparr>)
                   else if primaryEmail \<noteq> [] \<and> primaryEmail \<noteq> contactEmail rc then
                     ret (rc\<lparr>ccEmail := primaryEmail, ccName := primaryName\<rparr>)
                   else ret rc)
            else ret rc))"

text \<open>
  The best-effort contact lookup. The source has one \<^verbatim>\<open>try { ... } catch (e) { }\<close> around
  it and assigns the recipient variables as it goes: an error in the payer part leaves
  them empty, an error in the primary part leaves what the payer part assigned.
\<close>

definition upload_contacts :: "world \<Rightarrow> jsstring \<Rightarrow> recipients io" where
  "upload_contacts w d =
     try_catch
       (and_then (fetch (GetAssociations d (asc ''contacts'')) (w_contacts w)) (\<lambda>(st, js, tx).
          if ok st then
            and_then (await_body js) (\<lambda>results.
              let allAssocs = (case results of None \<Rightarrow> [] | Some rs \<Rightarrow> rs)
              in and_then (payer_details w no_recipients (payerAssoc allAssocs)) (\<lambda>rc.
                   try_catch (primary_details w rc (primaryAssoc allAssocs)) (\<lambda>e. ret rc)))
          else ret no_recipients))
       (\<lambda>e. ret no_recipients)"

text \<open>
  \<^verbatim>\<open>if (!res.ok) { const err = await res.text(); console.error(...) }\<close>: the note and the
  patch steps go on after a response that is not a success.
\<close>

definition log_failure :: "nat \<Rightarrow> jsstring body \<Rightarrow> unit io" where
  "log_failure st tx = (if ok st then ret () else and_then (await_body tx) (\<lambda>t. ret ()))"

text \<open>After the upload: the note, the property patch, the notification, the answer.\<close>

definition after_upload ::
  "world \<Rightarrow> jsstring \<Rightarrow> jsstring \<Rightarrow> jsstring \<Rightarrow> recipients \<Rightarrow> upload_data
     \<Rightarrow> (nat \<times> reply_body) io" where
  "after_upload w d dealName name rc uploadData =
     and_then (fetch (CreateNote d (file_id uploadData)) (w_note w)) (\<lambda>(st, js, tx).
     and_then (log_failure st tx) (\<lambda>u.
     and_then (fetch (PatchDeal d (file_url uploadData) (file_id uploadData)) (w_patch w))
       (\<lambda>(st, js, tx).
     and_then (log_failure st tx) (\<lambda>u.
     and_then (try_catch
                 (and_then (fetch (NotifyPO d dealName name rc) (w_notify w)) (\<lambda>r. ret ()))
                 (\<lambda>e. ret ())) (\<lambda>u.
     ret (200, UploadOk (file_url uploadData)))))))"

text \<open>\<^verbatim>\<open>fileName.split('.').pop()\<close>\<close>

definition last_segment :: "jsstring \<Rightarrow> jsstring" where
  "last_segment s = rev (takeWhile (\<lambda>c. c \<noteq> 0x2E) (rev s))"

definition upload_file ::
  "world \<Rightarrow> jsstring \<Rightarrow> jsstring \<Rightarrow> jsstring \<Rightarrow> jsstring option \<Rightarrow> byte list \<Rightarrow> recipients
     \<Rightarrow> (nat \<times> reply_body) io" where
  "upload_file w d dealName name type fileBuffer rc =
     (let ext = (if last_segment name = [] then asc ''pdf'' else last_segment name);
          hsFileName = dealName @ asc ''_PO.'' @ ext
      in and_then
           (fetch (UploadFile hsFileName (or_else type (asc ''application/pdf'')) (length fileBuffer))
              (w_upload w))
           (\<lambda>(st, js, tx).
              if ok st then
                and_then (await_body js) (\<lambda>uploadData.
                  after_upload w d dealName name rc uploadData)
              else
                and_then (await_body tx) (\<lambda>uploadErr.
                  throw (UploadFailed st (substring0 300 uploadErr)))))"

text \<open>The body of the handler's \<open>try\<close> block.\<close>

definition upload_try ::
  "world \<Rightarrow> jsstring \<Rightarrow> jsstring \<Rightarrow> jsstring option \<Rightarrow> byte list \<Rightarrow> (nat \<times> reply_body) io" where
  "upload_try w d name type fileBuffer =
     and_then (fetch (GetDeal d) (w_deal w)) (\<lambda>(st, js, tx).
       if ok st then
         and_then (await_body js) (\<lambda>deal.
           let dealName = or_else (dealname deal) d
           in and_then (upload_contacts w d) (\<lambda>rc.
                upload_file w d dealName name type fileBuffer rc))
       else ret (404, ErrorJson (asc ''Deal not found'') None))"

text \<open>
  \<^verbatim>\<open>fileData.includes(',') ? fileData.split(',')[1] : fileData\<close>: what stands between the
  first comma and the second.
\<close>

definition base64Raw :: "jsstring \<Rightarrow> jsstring" where
  "base64Raw s =
     (if 0x2C \<in> set s
      then takeWhile (\<lambda>c. c \<noteq> 0x2C) (drop 1 (dropWhile (\<lambda>c. c \<noteq> 0x2C) s))
      else s)"

definition allowedTypes :: "jsstring list" where
  "allowedTypes = [asc ''application/pdf'', asc ''image/png'', asc ''image/jpeg'']"

definition maxSize :: nat where
  "maxSize = 3 * 1024 * 1024"

definition too_large_message :: jsstring where
  "too_large_message =
     asc ''File is too large (max 3MB). Please email your PO to support@showoffinc.com.''"

definition upload_failed_message :: jsstring where
  "upload_failed_message =
     asc ''Upload failed. Please try again or email your PO to support@showoffinc.com.''"

text \<open>
  The handler. \<^verbatim>\<open>Buffer.from(s, 'base64')\<close>, the runtime's decoder, is the parameter
  \<open>base64\<close>. \<open>validateToken\<close> is called outside the \<open>try\<close> block: an error it throws
  escapes the handler.
\<close>

definition upload_po :: "(jsstring \<Rightarrow> byte list) \<Rightarrow> env \<Rightarrow> world \<Rightarrow> request \<Rightarrow> outcome" where
  "upload_po base64 e w req =
     (if req_method req = asc ''OPTIONS'' then ([], Replied 200 Empty)
      else if req_method req \<noteq> asc ''POST'' then
        ([], Replied 405 (ErrorJson (asc ''POST only'') None))
      else if falsy (dealId req) \<or> falsy (token req) then
        ([], Replied 400 (ErrorJson (asc ''dealId and token are required'') None))
      else
        (case validateToken (PO_QUOTE_SECRET e) (text_of (dealId req)) (token req) of
           Inl err \<Rightarrow> ([], Uncaught err)
         | Inr valid \<Rightarrow>
             if \<not> valid then
               ([], Replied 403 (ErrorJson (asc ''Invalid or expired link'') None))
             else if falsy (fileData req) \<or> falsy (fileName req) then
               ([], Replied 400 (ErrorJson (asc ''fileName and fileData are required'') None))
             else if \<not> falsy (fileType req)
                     \<and> text_of (fileType req) \<notin> set allowedTypes then
               ([], Replied 400
                  (ErrorJson (asc ''File type not allowed. Please upload a PDF, PNG, or JPG.'') None))
             else
               (let fileBuffer = base64 (base64Raw (text_of (fileData req)))
                in if length fileBuffer > maxSize then
                     ([], Replied 400 (ErrorJson too_large_message None))
                   else if falsy (HUBSPOT_TOKEN e) then
                     ([], Replied 500 (ErrorJson (asc ''HubSpot token not configured'') None))
                   else
                     finish
                       (try_catch
                          (upload_try w (text_of (dealId req)) (text_of (fileName req))
                             (fileType req) fileBuffer)
                          (\<lambda>error.
                             and_then (reportError w (asc ''/api/upload-po'') error) (\<lambda>u.
                               ret (500, ErrorJson upload_failed_message (Some error))))))))"

section \<open>The token-gated read endpoint: \<open>po-quote-review\<close>\<close>

text \<open>
  \<open>parseFloat\<close> and \<open>parseInt\<close> are parameters (\<open>None\<close> for \<open>NaN\<close>);
  \<^verbatim>\<open>parseFloat(x) || d\<close> takes \<open>d\<close> for \<open>NaN\<close> and for \<open>0\<close>.
\<close>

fun nan_or :: "real option \<Rightarrow> real \<Rightarrow> real" where
  "nan_or None d = d"
| "nan_or (Some v) d = (if v = 0 then d else v)"

definition coerce_item ::
  "(jsstring option \<Rightarrow> real option) \<Rightarrow> (jsstring option \<Rightarrow> real option) \<Rightarrow> raw_item \<Rightarrow> real line_item" where
  "coerce_item parseFloat parseInt it =
     \<lparr>item_id = raw_id it,
      item_name = or_else (raw_name it) (asc ''Item''),
      price = nan_or (parseFloat (raw_price it)) 0,
      quantity = nan_or (parseInt (raw_quantity it)) 1,
      amount = nan_or (parseFloat (raw_amount it)) 0\<rparr>"

definition review_line_items ::
  "(jsstring option \<Rightarrow> real option) \<Rightarrow> (jsstring option \<Rightarrow> real option) \<Rightarrow> world \<Rightarrow> jsstring
     \<Rightarrow> real line_item list io" where
  "review_line_items parseFloat parseInt w d =
     and_then (fetch (GetAssociations d (asc ''line_items'')) (w_line_items w)) (\<lambda>(st, js, tx).
       if ok st then
         and_then (await_body js) (\<lambda>results.
           let ids = map toObjectId (case results of None \<Rightarrow> [] | Some rs \<Rightarrow> rs)
           in if length ids > 0 then
                and_then (fetch (BatchRead ids) (w_batch w)) (\<lambda>(st, js, tx).
                  if ok st then
                    and_then (await_body js) (\<lambda>results.
                      ret (map (coerce_item parseFloat parseInt)
                             (case results of None \<Rightarrow> [] | Some rs \<Rightarrow> rs)))
                  else ret [])
              else ret [])
       else ret [])"

text \<open>\<^verbatim>\<open>[p.properties.firstname, p.properties.lastname].filter(Boolean).join(' ')\<close>\<close>

definition joined_name :: "contact_props \<Rightarrow> jsstring" where
  "joined_name p =
     (if falsy (firstname p) then or_else (lastname p) []
      else if falsy (lastname p) then text_of (firstname p)
      else text_of (firstname p) @ asc '' '' @ text_of (lastname p))"

definition review_contact ::
  "contact_props fetch_result \<Rightarrow> association option \<Rightarrow> contact_view option io" where
  "review_contact r a =
     (case a of
        None \<Rightarrow> ret None
      | Some x \<Rightarrow>
          and_then (fetch (GetContact (toObjectId x)) r) (\<lambda>(st, js, tx).
            if ok st then
              and_then (await_body js) (\<lambda>p.
                ret (Some \<lparr>cv_id = contact_id p, cv_name = joined_name p, cv_email = email p\<rparr>))
            else ret None))"

definition review_contacts ::
  "world \<Rightarrow> jsstring \<Rightarrow> (contact_view option \<times> contact_view option) io" where
  "review_contacts w d =
     and_then (fetch (GetAssociations d (asc ''contacts'')) (w_contacts w)) (\<lambda>(st, js, tx).
       if ok st then
         and_then (await_body js) (\<lambda>results.
           let allAssocs = (case results of None \<Rightarrow> [] | Some rs \<Rightarrow> rs)
           in and_then (review_contact (w_payer w) (payerAssoc allAssocs)) (\<lambda>payerContact.
              and_then (review_contact (w_primary w) (primaryAssoc allAssocs)) (\<lambda>primaryContact.
                ret (primaryContact, payerContact))))
       else ret (None, None))"

text \<open>
  The body of the \<open>try\<close> block. The answer's \<open>expirationDate\<close> (the clock) and
  \<open>verbiage\<close> (a JSON text parsed inside its own \<open>try\<close>) are left out of the view.
\<close>

definition review_try ::
  "(jsstring option \<Rightarrow> real option) \<Rightarrow> (jsstring option \<Rightarrow> real option) \<Rightarrow> world \<Rightarrow> jsstring
     \<Rightarrow> (nat \<times> reply_body) io" where
  "review_try parseFloat parseInt w d =
     and_then (fetch (GetDeal d) (w_deal w)) (\<lambda>(st, js, tx).
       if ok st then
         and_then (await_body js) (\<lambda>deal.
         and_then (review_line_items parseFloat parseInt w d) (\<lambda>lineItems.
         and_then (review_contacts w d) (\<lambda>(primaryContact, payerContact).
           ret (200, ReviewOk
             \<lparr>v_dealId = deal_id deal,
              v_dealName = or_else (dealname deal) [],
              v_total = total lineItems,
              v_lineItems = lineItems,
              v_primaryContact = primaryContact,
              v_payerContact = payerContact,
              v_addressee = or_else (po_quote_addressee deal) [],
              v_title = or_else (po_quote_title deal) [],
              v_notes = or_else (po_quote_notes deal) [],
              v_poQuoteStatus = or_null (po_quote_status deal),
              v_poQuoteLink = or_null (po_quote_link deal),
              v_poDocumentUrl = or_null (po_document_url deal),
              v_poReceivedDate = or_null (po_received_date deal)\<rparr>))))
       else ret (404, ErrorJson (asc ''Deal not found'') None))"

definition po_quote_review ::
  "(jsstring option \<Rightarrow> real option) \<Rightarrow> (jsstring option \<Rightarrow> real option) \<Rightarrow> env \<Rightarrow> world \<Rightarrow> request
     \<Rightarrow> outcome" where
  "po_quote_review parseFloat parseInt e w req =
     (if req_method req = asc ''OPTIONS'' then ([], Replied 200 Empty)
      else if falsy (dealId req) then
        ([], Replied 400 (ErrorJson (asc ''dealId is required'') None))
      else if falsy (token req) then
        ([], Replied 403 (ErrorJson (asc ''Access denied'') None))
      else
        (case validateToken (PO_QUOTE_SECRET e) (text_of (dealId req)) (token req) of
           Inl err \<Rightarrow> ([], Uncaught err)
         | Inr valid \<Rightarrow>
             if \<not> valid then
               ([], Replied 403 (ErrorJson (asc ''Invalid or expired link'') None))
             else if falsy (HUBSPOT_TOKEN e) then
               ([], Replied 500 (ErrorJson (asc ''HubSpot token not configured'') None))
             else
               finish
                 (try_catch (review_try parseFloat parseInt w (text_of (dealId req)))
                    (\<lambda>error.
                       and_then (reportError w (asc ''/api/po-quote-review'') error) (\<lambda>u.
                         ret (500, ErrorJson (asc ''Failed to fetch data'') (Some error)))))))"

section \<open>Reading a trace\<close>

text \<open>
  The upload call, and the steps that come after it: the note, the property patch and the
  purchase-order notification.
\<close>

fun is_upload :: "call \<Rightarrow> bool" where
  "is_upload (UploadFile n t z) = True"
| "is_upload c = False"

fun is_followup :: "call \<Rightarrow> bool" where
  "is_followup (CreateNote d f) = True"
| "is_followup (PatchDeal d u f) = True"
| "is_followup (NotifyPO d n f r) = True"
| "is_followup c = False"

text \<open>
  What the upload step throws on a response that is not a success: the error built from
  the status and the first 300 characters of the response text, or the rejection of
  \<open>text()\<close> itself.
\<close>

definition upload_error :: "nat \<Rightarrow> jsstring body \<Rightarrow> js_error" where
  "upload_error st tx =
     (case tx of Unreadable m \<Rightarrow> Rejected m | Body t \<Rightarrow> UploadFailed st (substring0 300 t))"

section \<open>Example inputs\<close>

text \<open>
  Concrete environments, requests and worlds at which the theorems below are applied. The
  decoder is right on texts made of the letter \<open>A\<close> (every letter is six zero bits);
  in the silent world every call fails with a network error.
\<close>

definition example_decoder :: "jsstring \<Rightarrow> byte list" where
  "example_decoder s = replicate (length s * 3 div 4) 0"

definition example_env :: env where
  "example_env = \<lparr>PO_QUOTE_SECRET = Some (asc ''s3cret''), HUBSPOT_TOKEN = Some (asc ''pat-na1'')\<rparr>"

definition example_request :: request where
  "example_request =
     \<lparr>req_method = asc ''POST'',
      dealId = Some (asc ''12345''),
      token = Some (expected_token (asc ''s3cret'') (asc ''12345'')),
      fileName = Some (asc ''po.pdf''),
      fileType = Some (asc ''application/pdf''),
      fileData = Some (asc ''AAAAAAAA'')\<rparr>"

definition three_mib_request :: request where
  "three_mib_request = example_request\<lparr>fileData := Some (replicate (4 * 1024 * 1024) 0x41)\<rparr>"

definition over_limit_request :: request where
  "over_limit_request =
     example_request\<lparr>fileData := Some (replicate (4 * 1024 * 1024 + 2) 0x41)\<rparr>"

definition silent_world :: world where
  "silent_world =
     \<lparr>w_deal = NetworkError [], w_line_items = NetworkError [], w_batch = NetworkError [],
      w_contacts = NetworkError [], w_payer = NetworkError [], w_primary = NetworkError [],
      w_upload = NetworkError [], w_note = NetworkError [], w_patch = NetworkError [],
      w_notify = NetworkError [], w_alert = NetworkError []\<rparr>"

definition no_secret_env :: env where
  "no_secret_env = \<lparr>PO_QUOTE_SECRET = None, HUBSPOT_TOKEN = Some (asc ''pat-na1'')\<rparr>"

definition no_bearer_env :: env where
  "no_bearer_env = \<lparr>PO_QUOTE_SECRET = Some (asc ''s3cret''), HUBSPOT_TOKEN = None\<rparr>"

definition no_parse :: "jsstring option \<Rightarrow> real option" where
  "no_parse s = None"

text \<open>
  A world in which every step of the write pipeline succeeds (the deal has no contact),
  one in which the file store answers 503, one in which the note call is cut off by a
  network error, and one in which the note and the patch are both answered 500.
\<close>

definition example_deal :: deal where
  "example_deal =
     \<lparr>deal_id = Some (asc ''12345''), dealname = Some (asc ''Acme''),
      po_quote_title = None, po_quote_addressee = None, po_quote_notes = None,
      po_quote_status = None, po_quote_link = None, po_document_url = None,
      po_received_date = None\<rparr>"

definition example_upload :: upload_data where
  "example_upload = \<lparr>file_id = Some (asc ''987''), file_url = Some (asc ''https://files.example/po.pdf'')\<rparr>"

definition example_world :: world where
  "example_world =
     silent_world
       \<lparr>w_deal := Response 200 (Body example_deal) (Body []),
        w_contacts := Response 200 (Body (Some [])) (Body []),
        w_upload := Response 201 (Body example_upload) (Body []),
        w_note := Response 200 (Body ()) (Body []),
        w_patch := Response 200 (Body ()) (Body []),
        w_notify := Response 200 (Body ()) (Body [])\<rparr>"

definition upload_down_world :: world where
  "upload_down_world =
     example_world\<lparr>w_upload := Response 503 (Unreadable []) (Body (asc ''Service Unavailable''))\<rparr>"

definition note_down_world :: world where
  "note_down_world = example_world\<lparr>w_note := NetworkError (asc ''fetch failed'')\<rparr>"

definition steps_down_world :: world where
  "steps_down_world =
     example_world
       \<lparr>w_note := Response 500 (Unreadable []) (Body (asc ''Internal Server Error'')),
        w_patch := Response 500 (Unreadable []) (Body (asc ''Internal Server Error''))\<rparr>"

section \<open>Token authority: properties\<close>

text \<open>The hash agrees with the standard's test vector for the message \<open>abc\<close>.\<close>

lemma sha256_abc:
  "hex (sha256 (utf8 (asc ''abc'')))
     = asc ''ba7816bf8f01cfea414140de5dae2223b00361a396177a9cb410ff61f20015ad''"
  by code_simp

lemma length_state_bytes: "length (state_bytes s) = 32"
  by (cases s rule: state_bytes.cases) (simp add: be_bytes32_def)

lemma length_sha256: "length (sha256 m) = 32"
  by (simp add: sha256_def Let_def length_state_bytes)

lemma length_hmac_sha256: "length (hmac_sha256 key msg) = 32"
  by (simp add: hmac_sha256_def Let_def length_sha256)

lemma length_hex: "length (hex bs) = 2 * length bs"
  by (induction bs) (simp_all add: hex_def)

lemma hexdigit_ascii: "n < 16 \<Longrightarrow> hexdigit n < 0x80"
  by (simp add: hexdigit_def word_less_nat_alt unat_of_nat)

lemma nibbles_of_byte: "unat (b :: byte) div 16 < 16 \<and> unat b mod 16 < 16"
  using unsigned_less [of b, where 'a = nat] by simp

lemma hex_ascii: "list_all (\<lambda>u. u < 0x80) (hex bs)"
  by (induction bs) (simp_all add: hex_def hexdigit_ascii nibbles_of_byte)

lemma ascii_not_surrogate: "u < 0x80 \<Longrightarrow> \<not> is_high (u :: 16 word)"
  by (simp add: is_high_def word_less_nat_alt word_le_nat_alt)

lemma utf8_ascii: "list_all (\<lambda>u. u < 0x80) s \<Longrightarrow> utf8 s = map ucast s"
  by (induction s rule: utf8.induct) (simp_all add: utf8_unit_def ascii_not_surrogate)

lemma length_expected_token: "length (expected_token secret d) = 16"
  by (simp add: expected_token_def substring0_def length_hex length_hmac_sha256)

lemma expected_token_ascii: "list_all (\<lambda>u. u < 0x80) (expected_token secret d)"
proof -
  have "list_all (\<lambda>u. u < 0x80) (take 16 (hex bs))" for bs
    using hex_ascii [of bs] by (auto simp: list_all_iff dest: in_set_takeD)
  then show ?thesis by (simp add: expected_token_def substring0_def)
qed

lemma length_utf8_expected_token: "length (utf8 (expected_token secret d)) = 16"
  by (simp add: utf8_ascii expected_token_ascii length_expected_token)

lemma validateToken_expected:
  "secret \<noteq> [] \<Longrightarrow>
     validateToken (Some secret) d (Some (expected_token secret d)) = Inr True"
proof -
  assume s: "secret \<noteq> []"
  let ?e = "expected_token secret d"
  have len: "length ?e = 16" by (rule length_expected_token)
  then have ne: "?e \<noteq> []" by auto
  have "padEnd 16 0x30 (substring0 16 ?e) = ?e"
    by (simp add: padEnd_def substring0_def len)
  with s ne show ?thesis
    by (simp add: timingSafeEqual_def)
qed

lemma asc_nonempty: "asc (c # cs) \<noteq> []"
  by (simp add: asc_def)

text \<open>
  Claim C1 (token round-trip). For every deal id and every non-empty secret, verifying the
  issued token succeeds, the issued token being the first 16 characters of the hex
  encoding of HMAC-SHA256(secret, deal id); verification compares that value with the
  supplied token cut to 16 characters and padded with \<open>0\<close> to 16.
\<close>

theorem validateToken_roundtrip:
  "secret \<noteq> [] \<Longrightarrow>
     validateToken (Some secret) d (Some (expected_token secret d)) = Inr True"
  by (rule validateToken_expected)

theorem validateToken_roundtrip_witness:
  "asc ''s3cret'' \<noteq> []
   \<and> validateToken (Some (asc ''s3cret'')) (asc ''12345'')
         (Some (expected_token (asc ''s3cret'') (asc ''12345''))) = Inr True"
proof -
  have h: "asc ''s3cret'' \<noteq> []" by (simp add: asc_def)
  from h validateToken_roundtrip [OF h, of "asc ''12345''"] show ?thesis by blast
qed

text \<open>
  Claim C2 (fail-closed verification). Verification returns false whenever the shared
  secret is unset (or empty) and whenever the supplied token is absent or empty, for
  every deal id and every other argument.
\<close>

theorem validateToken_fail_closed:
  "validateToken None d t = Inr False
   \<and> validateToken (Some []) d t = Inr False
   \<and> validateToken secret d None = Inr False
   \<and> validateToken secret d (Some []) = Inr False"
proof -
  have a: "validateToken (Some []) d t = Inr False"
    by (cases t) simp_all
  have b: "validateToken secret d None = Inr False"
    by (cases secret) simp_all
  have c: "validateToken secret d (Some []) = Inr False"
    by (cases secret) simp_all
  from a b c show ?thesis by simp
qed

lemma utf8_Cons_not_high: "\<not> is_high u \<Longrightarrow> utf8 (u # s) = utf8_unit u @ utf8 s"
  by (cases s) simp_all

lemma length_utf8_e_acute: "length (utf8 (padEnd 16 0x30 (substring0 16 [0xE9]))) = 17"
proof -
  have p: "padEnd 16 0x30 (substring0 16 [0xE9]) = 0xE9 # replicate 15 0x30"
    by (simp add: padEnd_def substring0_def)
  have a: "list_all (\<lambda>u. u < 0x80) (replicate 15 (0x30 :: 16 word))"
    by (simp add: list_all_iff)
  have h: "\<not> is_high 0xE9"
    by (simp add: is_high_def)
  have u: "utf8_unit 0xE9 = [0xC3, 0xA9]"
    by (simp add: utf8_unit_def)
  show ?thesis
    by (simp only: p utf8_Cons_not_high [OF h] u utf8_ascii [OF a]) simp
qed

text \<open>
  Claim C10 (totality of token verification) fails on the code: with the secret set, the
  one-character token U+00E9 is padded to 16 code units, which are 17 bytes of UTF-8,
  against the 16 bytes of the expected value, and \<open>timingSafeEqual\<close> throws.
\<close>

theorem validateToken_throws_on_non_ascii:
  "secret \<noteq> [] \<Longrightarrow> validateToken (Some secret) d (Some [0xE9]) = Inl RangeError"
  by (simp add: timingSafeEqual_def length_utf8_expected_token length_utf8_e_acute)

theorem validateToken_throws_on_non_ascii_witness:
  "asc ''s3cret'' \<noteq> []
   \<and> validateToken (Some (asc ''s3cret'')) (asc ''12345'') (Some [0xE9]) = Inl RangeError"
proof -
  have h: "asc ''s3cret'' \<noteq> []" by (simp add: asc_def)
  from h validateToken_throws_on_non_ascii [OF h, of "asc ''12345''"] show ?thesis by blast
qed

section \<open>Role resolution: properties\<close>

lemma find_None_fallback:
  "list_all (\<lambda>r. \<not> P r) xs \<Longrightarrow> find P xs = None"
  by (induction xs) auto

text \<open>
  Claim C5 (fallback primary). In a non-empty association list in which no entry carries
  the label "Primary Contact", the first entry of the list is selected as Primary,
  whatever its labels; the single unlabelled contact with id 5 is selected.
\<close>

theorem primary_fallback_first:
  "(\<forall>r rs. list_all (\<lambda>x. \<not> has_label (asc ''Primary Contact'') x) (r # rs)
      \<longrightarrow> primaryAssoc (r # rs) = Some r)
   \<and> map_option toObjectId (primaryAssoc [contact 5 []]) = Some 5"
proof (intro conjI allI impI)
  fix r rs
  assume "list_all (\<lambda>x. \<not> has_label (asc ''Primary Contact'') x) (r # rs)"
  then have "find (has_label (asc ''Primary Contact'')) (r # rs) = None"
    by (rule find_None_fallback)
  then show "primaryAssoc (r # rs) = Some r"
    by (simp add: primaryAssoc_def)
next
  show "map_option toObjectId (primaryAssoc [contact 5 []]) = Some 5"
    by (simp add: primaryAssoc_def contact_def has_label_def types_of_def)
qed

theorem primary_fallback_first_witness:
  "list_all (\<lambda>x. \<not> has_label (asc ''Primary Contact'') x)
     [contact 7 [''Payer''], contact 8 []]
   \<and> primaryAssoc [contact 7 [''Payer''], contact 8 []] = Some (contact 7 [''Payer''])"
proof -
  have h: "list_all (\<lambda>x. \<not> has_label (asc ''Primary Contact'') x)
     [contact 7 [''Payer''], contact 8 []]"
    by (simp add: contact_def has_label_def types_of_def asc_def)
  from primary_fallback_first h show ?thesis by blast
qed

lemma find_hd_filter:
  "find P xs = (case filter P xs of [] \<Rightarrow> None | x # _ \<Rightarrow> Some x)"
  by (induction xs) auto

lemma perm_filter_small:
  assumes "mset xs = mset ys" and "length (filter P xs) \<le> 1"
  shows "filter P ys = filter P xs"
proof -
  have m: "mset (filter P ys) = mset (filter P xs)"
    using assms(1) by simp
  show ?thesis
  proof (cases "filter P xs")
    case Nil
    with m show ?thesis by simp
  next
    case (Cons a as)
    with assms(2) have "as = []" by simp
    with Cons m have "mset (filter P ys) = {#a#}" by (simp del: mset_filter)
    then have "filter P ys = [a]" by (simp only: mset_single_iff)
    with Cons \<open>as = []\<close> show ?thesis by simp
  qed
qed

lemma role_resolution_perm:
  assumes "mset xs = mset ys"
    and "length (filter (has_label (asc ''Payer'')) xs) \<le> 1"
    and "length (filter (has_label (asc ''Primary Contact'')) xs) = 1"
  shows "payerAssoc ys = payerAssoc xs \<and> primaryAssoc ys = primaryAssoc xs"
proof -
  have p: "filter (has_label (asc ''Payer'')) ys = filter (has_label (asc ''Payer'')) xs"
    using assms(1,2) by (rule perm_filter_small)
  have q: "filter (has_label (asc ''Primary Contact'')) ys
             = filter (has_label (asc ''Primary Contact'')) xs"
    using assms(1,3) by (intro perm_filter_small) simp_all
  from assms(3) obtain r rs where "filter (has_label (asc ''Primary Contact'')) xs = r # rs"
    by (cases "filter (has_label (asc ''Primary Contact'')) xs") simp_all
  then show ?thesis
    by (simp add: payerAssoc_def primaryAssoc_def find_hd_filter p q)
qed

lemma example_filters:
  "filter (has_label (asc ''Payer'')) example_contacts = [contact 3 [''Payer'']]"
  "filter (has_label (asc ''Primary Contact'')) example_contacts = [contact 2 [''Primary Contact'']]"
  by (simp_all add: example_contacts_def contact_def has_label_def types_of_def asc_def)

lemma example_roles:
  "map_option toObjectId (payerAssoc example_contacts) = Some 3"
  "map_option toObjectId (primaryAssoc example_contacts) = Some 2"
  by (simp_all add: payerAssoc_def primaryAssoc_def find_hd_filter example_filters)
     (simp_all add: contact_def)

text \<open>
  Claim C4, amended (order independence of role resolution). For two permutations of one
  association list in which at most one entry carries "Payer" and exactly one entry
  carries "Primary Contact", the same entries are selected as Payer and as Primary; every
  permutation of the example's three contacts resolves Payer to id 3 and Primary to id 2.
\<close>

theorem role_resolution_order_independent:
  "(\<forall>xs ys. mset xs = mset ys
       \<and> length (filter (has_label (asc ''Payer'')) xs) \<le> 1
       \<and> length (filter (has_label (asc ''Primary Contact'')) xs) = 1
     \<longrightarrow> payerAssoc ys = payerAssoc xs \<and> primaryAssoc ys = primaryAssoc xs)
   \<and> (\<forall>ys. mset ys = mset example_contacts
     \<longrightarrow> map_option toObjectId (payerAssoc ys) = Some 3
       \<and> map_option toObjectId (primaryAssoc ys) = Some 2)"
proof (intro conjI allI impI)
  fix xs ys :: "association list"
  assume a: "mset xs = mset ys
       \<and> length (filter (has_label (asc ''Payer'')) xs) \<le> 1
       \<and> length (filter (has_label (asc ''Primary Contact'')) xs) = 1"
  then show "payerAssoc ys = payerAssoc xs" "primaryAssoc ys = primaryAssoc xs"
    using role_resolution_perm [of xs ys] by simp_all
next
  fix ys
  assume "mset ys = mset example_contacts"
  then have "payerAssoc ys = payerAssoc example_contacts
               \<and> primaryAssoc ys = primaryAssoc example_contacts"
    by (intro role_resolution_perm) (simp_all add: example_filters)
  then show "map_option toObjectId (payerAssoc ys) = Some 3"
    "map_option toObjectId (primaryAssoc ys) = Some 2"
    by (simp_all add: example_roles)
qed

theorem role_resolution_order_independent_witness:
  "mset example_contacts = mset (rev example_contacts)
   \<and> length (filter (has_label (asc ''Payer'')) example_contacts) \<le> 1
   \<and> length (filter (has_label (asc ''Primary Contact'')) example_contacts) = 1
   \<and> payerAssoc (rev example_contacts) = payerAssoc example_contacts
   \<and> primaryAssoc (rev example_contacts) = primaryAssoc example_contacts
   \<and> map_option toObjectId (payerAssoc (rev example_contacts)) = Some 3
   \<and> map_option toObjectId (primaryAssoc (rev example_contacts)) = Some 2"
proof -
  have h: "mset example_contacts = mset (rev example_contacts)
   \<and> length (filter (has_label (asc ''Payer'')) example_contacts) \<le> 1
   \<and> length (filter (has_label (asc ''Primary Contact'')) example_contacts) = 1"
    by (simp add: example_filters)
  have g: "mset (rev example_contacts) = mset example_contacts" by simp
  from h g role_resolution_order_independent show ?thesis by blast
qed

text \<open>
  The claim as stated fails: selection takes the first matching entry, so with two
  entries labelled "Payer" (and none labelled "Primary Contact") the two orders of the
  same list select different contacts, as Payer and as Primary.
\<close>

theorem role_resolution_order_dependent:
  "mset [contact 1 [''Payer''], contact 2 [''Payer'']]
     = mset [contact 2 [''Payer''], contact 1 [''Payer'']]
   \<and> payerAssoc [contact 1 [''Payer''], contact 2 [''Payer'']]
       \<noteq> payerAssoc [contact 2 [''Payer''], contact 1 [''Payer'']]
   \<and> primaryAssoc [contact 1 [''Payer''], contact 2 [''Payer'']]
       \<noteq> primaryAssoc [contact 2 [''Payer''], contact 1 [''Payer'']]"
  by (simp add: payerAssoc_def primaryAssoc_def contact_def has_label_def types_of_def asc_def)

section \<open>Total: properties\<close>



section \<open>Sequencing: properties\<close>

lemma and_then_ret: "and_then (ret x) f = f x"
  by (simp add: and_then_def ret_def split: prod.splits)

lemma and_then_throw: "and_then (throw e) f = throw e"
  by (simp add: and_then_def throw_def)

lemma and_then_await:
  "and_then (await_body b) f =
     (case b of Unreadable m \<Rightarrow> ([], Inl (Rejected m)) | Body x \<Rightarrow> f x)"
  by (simp add: and_then_def await_body_def split: body.splits prod.splits)

lemma and_then_fetch:
  "and_then (fetch c r) f =
     (case r of
        NetworkError m \<Rightarrow> ([c], Inl (Rejected m))
      | Response st js tx \<Rightarrow> (c # fst (f (st, js, tx)), snd (f (st, js, tx))))"
  by (simp add: and_then_def fetch_def split: fetch_result.splits prod.splits)

lemma fst_and_then:
  "fst (and_then m f) = fst m @ (case snd m of Inl e \<Rightarrow> [] | Inr x \<Rightarrow> fst (f x))"
  by (simp add: and_then_def split: prod.splits sum.splits)

lemma snd_and_then:
  "snd (and_then m f) = (case snd m of Inl e \<Rightarrow> Inl e | Inr x \<Rightarrow> snd (f x))"
  by (simp add: and_then_def split: prod.splits sum.splits)

lemma fst_try_catch:
  "fst (try_catch m h) = fst m @ (case snd m of Inl e \<Rightarrow> fst (h e) | Inr x \<Rightarrow> [])"
  by (simp add: try_catch_def split: prod.splits sum.splits)

lemma snd_try_catch:
  "snd (try_catch m h) = (case snd m of Inl e \<Rightarrow> snd (h e) | Inr x \<Rightarrow> Inr x)"
  by (simp add: try_catch_def split: prod.splits sum.splits)

lemma fst_finish: "fst (finish m) = fst m"
  by (simp add: finish_def split: prod.splits sum.splits)

lemma snd_finish:
  "snd (finish m) = (case snd m of Inl e \<Rightarrow> Uncaught e | Inr (st, b) \<Rightarrow> Replied st b)"
  by (simp add: finish_def split: prod.splits sum.splits)

lemma reportError_calls:
  "reportError w ep err = ([ErrorAlert ep err], Inr ())"
  by (simp add: reportError_def try_catch_def and_then_def fetch_def ret_def
      split: fetch_result.splits)

lemma upload_try_first_call:
  "\<exists>cs. fst (upload_try w d name type buf) = GetDeal d # cs"
  by (simp add: upload_try_def and_then_fetch split: fetch_result.splits)

lemma review_try_first_call:
  "\<exists>cs. fst (review_try pf pn w d) = GetDeal d # cs"
  by (simp add: review_try_def and_then_fetch split: fetch_result.splits)


section \<open>The handlers: validation and configuration\<close>

lemma example_token_valid:
  "validateToken (PO_QUOTE_SECRET example_env) (text_of (dealId example_request))
     (token example_request) = Inr True"
  using validateToken_expected [of "asc ''s3cret''" "asc ''12345''"]
  by (simp add: example_env_def example_request_def asc_nonempty del: validateToken.simps)

lemma valid_token_truthy: "validateToken s d t = Inr True \<Longrightarrow> \<not> falsy t"
  by (cases s; cases t) (auto split: if_splits)

lemma post_not_options: "asc ''POST'' \<noteq> asc ''OPTIONS''"
  by (simp add: asc_def)

lemma falsy_secret_invalid: "falsy s \<Longrightarrow> validateToken s d t = Inr False"
  by (cases s; cases t) simp_all

lemma upload_po_checked:
  assumes "req_method req = asc ''POST''"
    and "\<not> falsy (dealId req)"
    and "validateToken (PO_QUOTE_SECRET e) (text_of (dealId req)) (token req) = Inr True"
    and "\<not> falsy (fileData req)"
    and "\<not> falsy (fileName req)"
    and "falsy (fileType req) \<or> text_of (fileType req) \<in> set allowedTypes"
  shows "upload_po base64 e w req =
     (let fileBuffer = base64 (base64Raw (text_of (fileData req)))
      in if length fileBuffer > maxSize then
           ([], Replied 400 (ErrorJson too_large_message None))
         else if falsy (HUBSPOT_TOKEN e) then
           ([], Replied 500 (ErrorJson (asc ''HubSpot token not configured'') None))
         else
           finish
             (try_catch
                (upload_try w (text_of (dealId req)) (text_of (fileName req))
                   (fileType req) fileBuffer)
                (\<lambda>error.
                   and_then (reportError w (asc ''/api/upload-po'') error) (\<lambda>u.
                     ret (500, ErrorJson upload_failed_message (Some error))))))"
proof -
  from assms(3) have t: "\<not> falsy (token req)" by (rule valid_token_truthy)
  from assms t show ?thesis
    unfolding upload_po_def by (auto simp: post_not_options)
qed

lemma example_request_fields:
  "req_method example_request = asc ''POST''"
  "req_method example_request \<noteq> asc ''OPTIONS''"
  "\<not> falsy (dealId example_request)"
  "\<not> falsy (token example_request)"
  "\<not> falsy (fileData example_request)"
  "\<not> falsy (fileName example_request)"
  "falsy (fileType example_request) \<or> text_of (fileType example_request) \<in> set allowedTypes"
  "length (example_decoder (base64Raw (text_of (fileData example_request)))) \<le> maxSize"
proof -
  have "length (expected_token (asc ''s3cret'') (asc ''12345'')) = 16"
    by (rule length_expected_token)
  then have "expected_token (asc ''s3cret'') (asc ''12345'') \<noteq> []" by auto
  then show "\<not> falsy (token example_request)"
    by (simp add: example_request_def)
qed (simp_all add: example_request_def asc_nonempty allowedTypes_def post_not_options
       example_decoder_def base64Raw_def maxSize_def asc_def)

lemma three_mib_checks:
  "req_method three_mib_request = asc ''POST''"
  "\<not> falsy (dealId three_mib_request)"
  "validateToken (PO_QUOTE_SECRET example_env) (text_of (dealId three_mib_request))
     (token three_mib_request) = Inr True"
  "\<not> falsy (fileData three_mib_request)"
  "\<not> falsy (fileName three_mib_request)"
  "falsy (fileType three_mib_request) \<or> text_of (fileType three_mib_request) \<in> set allowedTypes"
  "length (example_decoder (base64Raw (text_of (fileData three_mib_request)))) = 3 * 1024 * 1024"
  using example_token_valid
  by (simp_all add: three_mib_request_def example_request_def asc_nonempty allowedTypes_def
      example_decoder_def base64Raw_def del: validateToken.simps)

lemma over_limit_checks:
  "req_method over_limit_request = asc ''POST''"
  "\<not> falsy (dealId over_limit_request)"
  "validateToken (PO_QUOTE_SECRET example_env) (text_of (dealId over_limit_request))
     (token over_limit_request) = Inr True"
  "\<not> falsy (fileData over_limit_request)"
  "\<not> falsy (fileName over_limit_request)"
  "falsy (fileType over_limit_request) \<or> text_of (fileType over_limit_request) \<in> set allowedTypes"
  "length (example_decoder (base64Raw (text_of (fileData over_limit_request))))
     = 3 * 1024 * 1024 + 1"
  using example_token_valid
  by (simp_all add: over_limit_request_def example_request_def asc_nonempty allowedTypes_def
      example_decoder_def base64Raw_def del: validateToken.simps)

lemma no_bearer_token_valid:
  "validateToken (PO_QUOTE_SECRET no_bearer_env) (text_of (dealId example_request))
     (token example_request) = Inr True"
  using validateToken_expected [of "asc ''s3cret''" "asc ''12345''"]
  by (simp add: no_bearer_env_def example_request_def asc_nonempty del: validateToken.simps)

text \<open>
  Claim C8 (file size boundary). For a submission that reaches the size check (a POST with
  a deal id, a valid token, a file name, file data and an allowed or absent type): a
  decoded payload of at most 3 * 1024 * 1024 bytes, so also one of exactly that size, is
  not rejected for its size, and the handler goes on to the configuration check and the
  deal read; a decoded payload of 3 * 1024 * 1024 + 1 bytes or more is rejected with
  HTTP 400 and the size-limit message, with no external call.
\<close>

theorem file_size_boundary:
  assumes "req_method req = asc ''POST''"
    and "\<not> falsy (dealId req)"
    and "validateToken (PO_QUOTE_SECRET e) (text_of (dealId req)) (token req) = Inr True"
    and "\<not> falsy (fileData req)"
    and "\<not> falsy (fileName req)"
    and "falsy (fileType req) \<or> text_of (fileType req) \<in> set allowedTypes"
  shows "(length (base64 (base64Raw (text_of (fileData req)))) \<le> 3 * 1024 * 1024 \<longrightarrow>
            upload_po base64 e w req \<noteq> ([], Replied 400 (ErrorJson too_large_message None))
          \<and> (falsy (HUBSPOT_TOKEN e) \<longrightarrow>
                upload_po base64 e w req =
                  ([], Replied 500 (ErrorJson (asc ''HubSpot token not configured'') None)))
          \<and> (\<not> falsy (HUBSPOT_TOKEN e) \<longrightarrow>
                (\<exists>cs. fst (upload_po base64 e w req) = GetDeal (text_of (dealId req)) # cs)))
       \<and> (3 * 1024 * 1024 + 1 \<le> length (base64 (base64Raw (text_of (fileData req)))) \<longrightarrow>
            upload_po base64 e w req = ([], Replied 400 (ErrorJson too_large_message None)))"
proof -
  let ?buf = "base64 (base64Raw (text_of (fileData req)))"
  let ?d = "text_of (dealId req)"
  note eq = upload_po_checked [OF assms, of base64 w]
  have big: "upload_po base64 e w req = ([], Replied 400 (ErrorJson too_large_message None))"
    if "3 * 1024 * 1024 + 1 \<le> length ?buf"
    using that by (simp add: eq maxSize_def)
  have unset: "upload_po base64 e w req =
      ([], Replied 500 (ErrorJson (asc ''HubSpot token not configured'') None))"
    if "length ?buf \<le> 3 * 1024 * 1024" and "falsy (HUBSPOT_TOKEN e)"
    using that by (simp add: eq maxSize_def)
  have calls: "\<exists>cs. fst (upload_po base64 e w req) = GetDeal ?d # cs"
    if "length ?buf \<le> 3 * 1024 * 1024" and "\<not> falsy (HUBSPOT_TOKEN e)"
  proof -
    obtain cs where "fst (upload_try w ?d (text_of (fileName req)) (fileType req) ?buf)
        = GetDeal ?d # cs"
      using upload_try_first_call by blast
    with that show ?thesis
      by (simp add: eq maxSize_def fst_finish fst_try_catch)
  qed
  have small: "upload_po base64 e w req \<noteq> ([], Replied 400 (ErrorJson too_large_message None))"
    if le: "length ?buf \<le> 3 * 1024 * 1024"
  proof (cases "falsy (HUBSPOT_TOKEN e)")
    case True
    with unset [OF le] show ?thesis by simp
  next
    case False
    with calls [OF le] show ?thesis by auto
  qed
  from big unset calls small show ?thesis by blast
qed

theorem file_size_boundary_witness:
  "req_method three_mib_request = asc ''POST''
   \<and> \<not> falsy (dealId three_mib_request)
   \<and> validateToken (PO_QUOTE_SECRET example_env) (text_of (dealId three_mib_request))
        (token three_mib_request) = Inr True
   \<and> \<not> falsy (fileData three_mib_request)
   \<and> \<not> falsy (fileName three_mib_request)
   \<and> (falsy (fileType three_mib_request)
        \<or> text_of (fileType three_mib_request) \<in> set allowedTypes)
   \<and> length (example_decoder (base64Raw (text_of (fileData three_mib_request))))
        = 3 * 1024 * 1024
   \<and> \<not> falsy (HUBSPOT_TOKEN example_env)
   \<and> upload_po example_decoder example_env silent_world three_mib_request
        \<noteq> ([], Replied 400 (ErrorJson too_large_message None))
   \<and> (\<exists>cs. fst (upload_po example_decoder example_env silent_world three_mib_request)
          = GetDeal (text_of (dealId three_mib_request)) # cs)
   \<and> req_method over_limit_request = asc ''POST''
   \<and> \<not> falsy (dealId over_limit_request)
   \<and> validateToken (PO_QUOTE_SECRET example_env) (text_of (dealId over_limit_request))
        (token over_limit_request) = Inr True
   \<and> \<not> falsy (fileData over_limit_request)
   \<and> \<not> falsy (fileName over_limit_request)
   \<and> (falsy (fileType over_limit_request)
        \<or> text_of (fileType over_limit_request) \<in> set allowedTypes)
   \<and> length (example_decoder (base64Raw (text_of (fileData over_limit_request))))
        = 3 * 1024 * 1024 + 1
   \<and> upload_po example_decoder example_env silent_world over_limit_request
        = ([], Replied 400 (ErrorJson too_large_message None))"
proof -
  have o: "3 * 1024 * 1024 + 1
      \<le> length (example_decoder (base64Raw (text_of (fileData over_limit_request))))"
    by (simp add: over_limit_checks(7))
  from file_size_boundary [OF over_limit_checks(1-6), of example_decoder silent_world] o
  have over: "upload_po example_decoder example_env silent_world over_limit_request
        = ([], Replied 400 (ErrorJson too_large_message None))"
    by blast
  have c: "\<not> falsy (HUBSPOT_TOKEN example_env)"
    by (simp add: example_env_def asc_nonempty)
  have l: "length (example_decoder (base64Raw (text_of (fileData three_mib_request))))
             \<le> 3 * 1024 * 1024"
    by (simp add: three_mib_checks(7))
  from file_size_boundary [OF three_mib_checks(1-6), of example_decoder silent_world] l c
  have "upload_po example_decoder example_env silent_world three_mib_request
        \<noteq> ([], Replied 400 (ErrorJson too_large_message None))
   \<and> (\<exists>cs. fst (upload_po example_decoder example_env silent_world three_mib_request)
          = GetDeal (text_of (dealId three_mib_request)) # cs)"
    by blast
  with three_mib_checks over_limit_checks over c show ?thesis by blast
qed

lemma upload_po_no_call_unconfigured:
  assumes "falsy (HUBSPOT_TOKEN e) \<or> falsy (PO_QUOTE_SECRET e)"
  shows "fst (upload_po base64 e w req) = []"
proof (cases "falsy (PO_QUOTE_SECRET e)")
  case True
  then show ?thesis
    by (simp add: upload_po_def falsy_secret_invalid)
next
  case False
  with assms have "falsy (HUBSPOT_TOKEN e)" by simp
  then show ?thesis
    by (simp add: upload_po_def Let_def split: sum.splits)
qed

lemma review_no_call_unconfigured:
  assumes "falsy (HUBSPOT_TOKEN e) \<or> falsy (PO_QUOTE_SECRET e)"
  shows "fst (po_quote_review pf pn e w req) = []"
proof (cases "falsy (PO_QUOTE_SECRET e)")
  case True
  then show ?thesis
    by (simp add: po_quote_review_def falsy_secret_invalid)
next
  case False
  with assms have "falsy (HUBSPOT_TOKEN e)" by simp
  then show ?thesis
    by (simp add: po_quote_review_def split: sum.splits)
qed

lemma review_unset_bearer:
  assumes "falsy (HUBSPOT_TOKEN e)"
    and "req_method req \<noteq> asc ''OPTIONS''"
    and "\<not> falsy (dealId req)"
    and "validateToken (PO_QUOTE_SECRET e) (text_of (dealId req)) (token req) = Inr True"
  shows "snd (po_quote_review pf pn e w req) =
           Replied 500 (ErrorJson (asc ''HubSpot token not configured'') None)"
proof -
  from assms(4) have "\<not> falsy (token req)" by (rule valid_token_truthy)
  with assms show ?thesis
    by (simp add: po_quote_review_def)
qed

lemma upload_unset_bearer:
  assumes "falsy (HUBSPOT_TOKEN e)"
    and "req_method req = asc ''POST''"
    and "\<not> falsy (dealId req)"
    and "validateToken (PO_QUOTE_SECRET e) (text_of (dealId req)) (token req) = Inr True"
    and "\<not> falsy (fileData req)"
    and "\<not> falsy (fileName req)"
    and "falsy (fileType req) \<or> text_of (fileType req) \<in> set allowedTypes"
    and "length (base64 (base64Raw (text_of (fileData req)))) \<le> maxSize"
  shows "snd (upload_po base64 e w req) =
           Replied 500 (ErrorJson (asc ''HubSpot token not configured'') None)"
  using assms(1,8) by (simp add: upload_po_checked [OF assms(2-7)])

lemma review_unset_secret:
  assumes "falsy (PO_QUOTE_SECRET e)"
    and "req_method req \<noteq> asc ''OPTIONS''"
    and "\<not> falsy (dealId req)"
    and "\<not> falsy (token req)"
  shows "snd (po_quote_review pf pn e w req) =
           Replied 403 (ErrorJson (asc ''Invalid or expired link'') None)"
  using assms by (simp add: po_quote_review_def falsy_secret_invalid)

lemma upload_unset_secret:
  assumes "falsy (PO_QUOTE_SECRET e)"
    and "req_method req = asc ''POST''"
    and "\<not> falsy (dealId req)"
    and "\<not> falsy (token req)"
  shows "snd (upload_po base64 e w req) =
           Replied 403 (ErrorJson (asc ''Invalid or expired link'') None)"
  using assms by (simp add: upload_po_def falsy_secret_invalid post_not_options)

text \<open>
  Claim C9, amended (missing configuration). When the CRM bearer token or the shared
  secret is missing, neither the write endpoint nor the token-gated read endpoint makes
  an external call. A missing bearer token yields HTTP 500 for every request that passes
  the checks made before it (method, parameters, token and, on the write endpoint, file
  name, data, type and size); a missing secret yields HTTP 403 for every request with a
  deal id and a token (on the write endpoint: every POST), since verification fails
  closed.
\<close>

theorem missing_configuration:
  "(falsy (HUBSPOT_TOKEN e) \<or> falsy (PO_QUOTE_SECRET e) \<longrightarrow>
      fst (upload_po base64 e w req) = [] \<and> fst (po_quote_review pf pn e w req) = [])
   \<and> (falsy (HUBSPOT_TOKEN e)
       \<and> req_method req \<noteq> asc ''OPTIONS''
       \<and> \<not> falsy (dealId req)
       \<and> validateToken (PO_QUOTE_SECRET e) (text_of (dealId req)) (token req) = Inr True \<longrightarrow>
      snd (po_quote_review pf pn e w req) =
        Replied 500 (ErrorJson (asc ''HubSpot token not configured'') None))
   \<and> (falsy (HUBSPOT_TOKEN e)
       \<and> req_method req = asc ''POST''
       \<and> \<not> falsy (dealId req)
       \<and> validateToken (PO_QUOTE_SECRET e) (text_of (dealId req)) (token req) = Inr True
       \<and> \<not> falsy (fileData req)
       \<and> \<not> falsy (fileName req)
       \<and> (falsy (fileType req) \<or> text_of (fileType req) \<in> set allowedTypes)
       \<and> length (base64 (base64Raw (text_of (fileData req)))) \<le> maxSize \<longrightarrow>
      snd (upload_po base64 e w req) =
        Replied 500 (ErrorJson (asc ''HubSpot token not configured'') None))
   \<and> (falsy (PO_QUOTE_SECRET e)
       \<and> req_method req \<noteq> asc ''OPTIONS''
       \<and> \<not> falsy (dealId req)
       \<and> \<not> falsy (token req) \<longrightarrow>
      snd (po_quote_review pf pn e w req) =
        Replied 403 (ErrorJson (asc ''Invalid or expired link'') None))
   \<and> (falsy (PO_QUOTE_SECRET e)
       \<and> req_method req = asc ''POST''
       \<and> \<not> falsy (dealId req)
       \<and> \<not> falsy (token req) \<longrightarrow>
      snd (upload_po base64 e w req) =
        Replied 403 (ErrorJson (asc ''Invalid or expired link'') None))"
  using upload_po_no_call_unconfigured [of e base64 w req]
    review_no_call_unconfigured [of e pf pn w req]
    review_unset_bearer [of e req pf pn w]
    upload_unset_bearer [of e req base64 w]
    review_unset_secret [of e req pf pn w]
    upload_unset_secret [of e req base64 w]
  by blast

theorem missing_configuration_witness:
  "falsy (PO_QUOTE_SECRET no_secret_env)
   \<and> req_method example_request = asc ''POST''
   \<and> req_method example_request \<noteq> asc ''OPTIONS''
   \<and> \<not> falsy (dealId example_request)
   \<and> \<not> falsy (token example_request)
   \<and> fst (upload_po example_decoder no_secret_env silent_world example_request) = []
   \<and> fst (po_quote_review no_parse no_parse no_secret_env silent_world example_request) = []
   \<and> snd (upload_po example_decoder no_secret_env silent_world example_request) =
        Replied 403 (ErrorJson (asc ''Invalid or expired link'') None)
   \<and> snd (po_quote_review no_parse no_parse no_secret_env silent_world example_request) =
        Replied 403 (ErrorJson (asc ''Invalid or expired link'') None)
   \<and> falsy (HUBSPOT_TOKEN no_bearer_env)
   \<and> validateToken (PO_QUOTE_SECRET no_bearer_env) (text_of (dealId example_request))
        (token example_request) = Inr True
   \<and> \<not> falsy (fileData example_request)
   \<and> \<not> falsy (fileName example_request)
   \<and> (falsy (fileType example_request)
        \<or> text_of (fileType example_request) \<in> set allowedTypes)
   \<and> length (example_decoder (base64Raw (text_of (fileData example_request)))) \<le> maxSize
   \<and> fst (upload_po example_decoder no_bearer_env silent_world example_request) = []
   \<and> fst (po_quote_review no_parse no_parse no_bearer_env silent_world example_request) = []
   \<and> snd (upload_po example_decoder no_bearer_env silent_world example_request) =
        Replied 500 (ErrorJson (asc ''HubSpot token not configured'') None)
   \<and> snd (po_quote_review no_parse no_parse no_bearer_env silent_world example_request) =
        Replied 500 (ErrorJson (asc ''HubSpot token not configured'') None)"
proof -
  have s: "falsy (PO_QUOTE_SECRET no_secret_env)"
    by (simp add: no_secret_env_def)
  have b: "falsy (HUBSPOT_TOKEN no_bearer_env)"
    by (simp add: no_bearer_env_def)
  note f = example_request_fields
  note v = no_bearer_token_valid
  from s f
    missing_configuration [of no_secret_env example_decoder silent_world example_request
      no_parse no_parse]
  have one: "fst (upload_po example_decoder no_secret_env silent_world example_request) = []
   \<and> fst (po_quote_review no_parse no_parse no_secret_env silent_world example_request) = []
   \<and> snd (upload_po example_decoder no_secret_env silent_world example_request) =
        Replied 403 (ErrorJson (asc ''Invalid or expired link'') None)
   \<and> snd (po_quote_review no_parse no_parse no_secret_env silent_world example_request) =
        Replied 403 (ErrorJson (asc ''Invalid or expired link'') None)"
    by blast
  from b f v
    missing_configuration [of no_bearer_env example_decoder silent_world example_request
      no_parse no_parse]
  have two: "fst (upload_po example_decoder no_bearer_env silent_world example_request) = []
   \<and> fst (po_quote_review no_parse no_parse no_bearer_env silent_world example_request) = []
   \<and> snd (upload_po example_decoder no_bearer_env silent_world example_request) =
        Replied 500 (ErrorJson (asc ''HubSpot token not configured'') None)
   \<and> snd (po_quote_review no_parse no_parse no_bearer_env silent_world example_request) =
        Replied 500 (ErrorJson (asc ''HubSpot token not configured'') None)"
    by blast
  from s b f v one two show ?thesis by blast
qed

text \<open>
  The claim as stated fails: with the shared secret missing, a request with a deal id and
  a token is answered 403 by both endpoints, not 500; and with the bearer token missing, a
  POST without a deal id is answered 400.
\<close>

theorem missing_secret_is_403:
  "falsy (PO_QUOTE_SECRET no_secret_env)
   \<and> upload_po example_decoder no_secret_env silent_world example_request =
        ([], Replied 403 (ErrorJson (asc ''Invalid or expired link'') None))
   \<and> po_quote_review no_parse no_parse no_secret_env silent_world example_request =
        ([], Replied 403 (ErrorJson (asc ''Invalid or expired link'') None))
   \<and> falsy (HUBSPOT_TOKEN no_bearer_env)
   \<and> upload_po example_decoder no_bearer_env silent_world (example_request\<lparr>dealId := None\<rparr>) =
        ([], Replied 400 (ErrorJson (asc ''dealId and token are required'') None))"
proof -
  have s: "falsy (PO_QUOTE_SECRET no_secret_env)"
    by (simp add: no_secret_env_def)
  have b: "falsy (HUBSPOT_TOKEN no_bearer_env)"
    by (simp add: no_bearer_env_def)
  have u: "upload_po example_decoder no_secret_env silent_world example_request =
        ([], Replied 403 (ErrorJson (asc ''Invalid or expired link'') None))"
    using example_request_fields(1,3,4) s
    by (simp add: upload_po_def falsy_secret_invalid post_not_options)
  have r: "po_quote_review no_parse no_parse no_secret_env silent_world example_request =
        ([], Replied 403 (ErrorJson (asc ''Invalid or expired link'') None))"
    using example_request_fields(2,3,4) s
    by (simp add: po_quote_review_def falsy_secret_invalid)
  have m: "upload_po example_decoder no_bearer_env silent_world (example_request\<lparr>dealId := None\<rparr>) =
        ([], Replied 400 (ErrorJson (asc ''dealId and token are required'') None))"
    using example_request_fields(1)
    by (simp add: upload_po_def post_not_options)
  from s b u r m show ?thesis by blast
qed

section \<open>The write pipeline: properties\<close>

lemma payer_details_calls:
  "\<not> list_ex is_upload (fst (payer_details w rc a)) \<and> \<not> list_ex is_followup (fst (payer_details w rc a))"
  by (simp add: payer_details_def and_then_fetch and_then_await ret_def
      split: option.splits fetch_result.splits body.splits)

lemma primary_details_calls:
  "\<not> list_ex is_upload (fst (primary_details w rc a)) \<and> \<not> list_ex is_followup (fst (primary_details w rc a))"
  by (simp add: primary_details_def and_then_fetch and_then_await ret_def Let_def
      split: option.splits fetch_result.splits body.splits)

lemma upload_contacts_calls:
  "\<not> list_ex is_upload (fst (upload_contacts w d))
   \<and> \<not> list_ex is_followup (fst (upload_contacts w d))"
  using payer_details_calls primary_details_calls
  by (simp add: upload_contacts_def fst_try_catch fst_and_then snd_and_then fetch_def
      await_body_def ret_def Let_def
      split: sum.splits fetch_result.splits body.splits prod.splits)

lemma upload_contacts_returns: "\<exists>rc. snd (upload_contacts w d) = Inr rc"
  by (simp add: upload_contacts_def snd_try_catch ret_def split: sum.splits)

lemma upload_file_failed:
  assumes "w_upload w = Response st js tx" and "\<not> ok st"
  shows "\<exists>c. is_upload c
           \<and> upload_file w d dealName name type buf rc = ([c], Inl (upload_error st tx))"
  using assms
  by (simp add: upload_file_def and_then_fetch and_then_await throw_def upload_error_def Let_def
      split: body.splits)

lemma upload_file_starts: "\<exists>c cs. is_upload c \<and> fst (upload_file w d dealName name type buf rc) = c # cs"
  by (simp add: upload_file_def and_then_fetch Let_def split: fetch_result.splits)

lemma upload_try_failed:
  assumes "w_upload w = Response st js tx" and "\<not> ok st"
    and "list_ex is_upload (fst (upload_try w d name type buf))"
  shows "snd (upload_try w d name type buf) = Inl (upload_error st tx)
         \<and> \<not> list_ex is_followup (fst (upload_try w d name type buf))"
proof (cases "w_deal w")
  case (NetworkError m)
  with assms(3) show ?thesis
    by (simp add: upload_try_def and_then_fetch)
next
  case (Response dst djs dtx)
  show ?thesis
  proof (cases "ok dst")
    case False
    with Response assms(3) show ?thesis
      by (simp add: upload_try_def and_then_fetch ret_def)
  next
    case True
    show ?thesis
    proof (cases djs)
      case (Unreadable m)
      with Response True assms(3) show ?thesis
        by (simp add: upload_try_def and_then_fetch and_then_await)
    next
      case (Body deal)
      obtain rc where rc: "snd (upload_contacts w d) = Inr rc"
        using upload_contacts_returns by blast
      obtain c where c: "is_upload c"
        "upload_file w d (or_else (dealname deal) d) name type buf rc = ([c], Inl (upload_error st tx))"
        using upload_file_failed [OF assms(1,2)] by blast
      from c(1) have nf: "\<not> is_followup c" by (cases c) simp_all
      from Response True Body rc c nf upload_contacts_calls [of w d] show ?thesis
        by (simp add: upload_try_def and_then_fetch and_then_await Let_def
            fst_and_then snd_and_then)
    qed
  qed
qed

lemma upload_po_cases:
  "fst (upload_po base64 e w req) = []
   \<or> upload_po base64 e w req =
       finish
         (try_catch
            (upload_try w (text_of (dealId req)) (text_of (fileName req)) (fileType req)
               (base64 (base64Raw (text_of (fileData req)))))
            (\<lambda>error.
               and_then (reportError w (asc ''/api/upload-po'') error) (\<lambda>u.
                 ret (500, ErrorJson upload_failed_message (Some error)))))"
  by (simp add: upload_po_def Let_def split: sum.splits)

lemma upload_po_caught:
  assumes "upload_po base64 e w req = finish (try_catch m
            (\<lambda>error. and_then (reportError w ep error) (\<lambda>u.
               ret (500, ErrorJson upload_failed_message (Some error)))))"
    and "snd m = Inl err"
  shows "snd (upload_po base64 e w req) = Replied 500 (ErrorJson upload_failed_message (Some err))"
    and "fst (upload_po base64 e w req) = fst m @ [ErrorAlert ep err]"
  using assms(2)
  by (simp_all add: assms(1) snd_finish fst_finish snd_try_catch fst_try_catch
      reportError_calls and_then_def ret_def)

lemma upload_reached:
  assumes "req_method req = asc ''POST''"
    and "\<not> falsy (dealId req)"
    and "validateToken (PO_QUOTE_SECRET e) (text_of (dealId req)) (token req) = Inr True"
    and "\<not> falsy (fileData req)"
    and "\<not> falsy (fileName req)"
    and "falsy (fileType req) \<or> text_of (fileType req) \<in> set allowedTypes"
    and "length (base64 (base64Raw (text_of (fileData req)))) \<le> maxSize"
    and "\<not> falsy (HUBSPOT_TOKEN e)"
    and "w_deal w = Response st (Body deal) tx"
    and "ok st"
  shows "list_ex is_upload (fst (upload_po base64 e w req))"
proof -
  let ?d = "text_of (dealId req)"
  let ?buf = "base64 (base64Raw (text_of (fileData req)))"
  obtain rc where rc: "snd (upload_contacts w ?d) = Inr rc"
    using upload_contacts_returns by blast
  obtain c cs where c: "is_upload c"
    "fst (upload_file w ?d (or_else (dealname deal) ?d) (text_of (fileName req)) (fileType req)
        ?buf rc) = c # cs"
    using upload_file_starts by blast
  have "list_ex is_upload (fst (upload_try w ?d (text_of (fileName req)) (fileType req) ?buf))"
    using assms(9,10) rc c
    by (simp add: upload_try_def and_then_fetch and_then_await Let_def fst_and_then)
  with assms(7,8) show ?thesis
    by (simp add: upload_po_checked [OF assms(1-6)] fst_finish fst_try_catch)
qed

lemma example_env_bearer: "\<not> falsy (HUBSPOT_TOKEN example_env)"
  by (simp add: example_env_def asc_nonempty)

lemma ok_examples: "ok 200" "ok 201" "\<not> ok 503"
  by (simp_all add: ok_def)

lemma upload_reached_example:
  assumes "w_deal w = Response 200 (Body example_deal) (Body [])"
  shows "list_ex is_upload (fst (upload_po example_decoder example_env w example_request))"
  using example_request_fields(1,3) example_token_valid example_request_fields(5-8)
    example_env_bearer assms ok_examples(1)
  by (rule upload_reached)

text \<open>
  Claim C6 (fatal upload failure). Whenever the handler makes the upload call and the file
  store answers with a status that is not a success, the endpoint responds HTTP 500 (with
  the error of the upload step as details) and makes none of the later calls: no note, no
  property patch, no notification.
\<close>

theorem upload_failure_is_fatal:
  assumes "list_ex is_upload (fst (upload_po base64 e w req))"
    and "w_upload w = Response st js tx"
    and "\<not> ok st"
  shows "snd (upload_po base64 e w req) =
           Replied 500 (ErrorJson upload_failed_message (Some (upload_error st tx)))
         \<and> \<not> list_ex is_followup (fst (upload_po base64 e w req))"
proof -
  let ?m = "upload_try w (text_of (dealId req)) (text_of (fileName req)) (fileType req)
               (base64 (base64Raw (text_of (fileData req))))"
  let ?h = "\<lambda>error. and_then (reportError w (asc ''/api/upload-po'') error) (\<lambda>u.
                 ret (500, ErrorJson upload_failed_message (Some error)))"
  from assms(1) have "fst (upload_po base64 e w req) \<noteq> []" by auto
  with upload_po_cases [of base64 e w req]
  have eq: "upload_po base64 e w req = finish (try_catch ?m ?h)" by blast
  have calls: "fst (upload_po base64 e w req)
      = fst ?m @ (case snd ?m of Inl err \<Rightarrow> [ErrorAlert (asc ''/api/upload-po'') err] | Inr x \<Rightarrow> [])"
    by (simp add: eq fst_finish fst_try_catch reportError_calls and_then_def ret_def
        split: sum.splits)
  with assms(1) have up: "list_ex is_upload (fst ?m)"
    by (auto simp: list_ex_iff split: sum.splits)
  from upload_try_failed [OF assms(2,3) up]
  have r: "snd ?m = Inl (upload_error st tx)" and nf: "\<not> list_ex is_followup (fst ?m)"
    by simp_all
  from upload_po_caught [OF eq r] nf show ?thesis
    by (simp add: list_ex_iff)
qed

theorem upload_failure_is_fatal_witness:
  "list_ex is_upload (fst (upload_po example_decoder example_env upload_down_world example_request))
   \<and> w_upload upload_down_world = Response 503 (Unreadable []) (Body (asc ''Service Unavailable''))
   \<and> \<not> ok 503
   \<and> snd (upload_po example_decoder example_env upload_down_world example_request) =
        Replied 500 (ErrorJson upload_failed_message
          (Some (upload_error 503 (Body (asc ''Service Unavailable'')))))
   \<and> \<not> list_ex is_followup
          (fst (upload_po example_decoder example_env upload_down_world example_request))"
proof -
  have r: "list_ex is_upload
      (fst (upload_po example_decoder example_env upload_down_world example_request))"
    by (rule upload_reached_example) (simp add: upload_down_world_def example_world_def)
  have u: "w_upload upload_down_world
      = Response 503 (Unreadable []) (Body (asc ''Service Unavailable''))"
    by (simp add: upload_down_world_def)
  from r u ok_examples(3) upload_failure_is_fatal [OF r u ok_examples(3)]
  show ?thesis by blast
qed

lemma log_failure_readable: "log_failure st (Body t) = ret ()"
  by (simp add: log_failure_def and_then_await)

lemma after_upload_degrades:
  assumes "w_note w = Response nst njs (Body nt)"
    and "w_patch w = Response pst pjs (Body pt)"
  shows "snd (after_upload w d dealName name rc data) = Inr (200, UploadOk (file_url data))"
  using assms
  by (simp add: after_upload_def and_then_fetch log_failure_readable and_then_ret
      snd_and_then try_catch_def ret_def split: fetch_result.splits)

lemma after_upload_note_rejected:
  assumes "w_note w = NetworkError m"
  shows "after_upload w d dealName name rc data
           = ([CreateNote d (file_id data)], Inl (Rejected m))"
  using assms by (simp add: after_upload_def and_then_fetch)

lemma upload_try_after:
  assumes "w_upload w = Response st (Body data) tx" and "ok st"
    and "list_ex is_upload (fst (upload_try w d name type buf))"
  shows "\<exists>dealName rc. snd (upload_try w d name type buf)
           = snd (after_upload w d dealName name rc data)"
proof (cases "w_deal w")
  case (NetworkError m)
  with assms(3) show ?thesis
    by (simp add: upload_try_def and_then_fetch)
next
  case (Response dst djs dtx)
  show ?thesis
  proof (cases "ok dst")
    case False
    with Response assms(3) show ?thesis
      by (simp add: upload_try_def and_then_fetch ret_def)
  next
    case True
    show ?thesis
    proof (cases djs)
      case (Unreadable m)
      with Response True assms(3) show ?thesis
        by (simp add: upload_try_def and_then_fetch and_then_await)
    next
      case (Body deal)
      obtain rc where rc: "snd (upload_contacts w d) = Inr rc"
        using upload_contacts_returns by blast
      have "snd (upload_file w d (or_else (dealname deal) d) name type buf rc)
          = snd (after_upload w d (or_else (dealname deal) d) name rc data)"
        using assms(1,2)
        by (simp add: upload_file_def and_then_fetch and_then_await Let_def)
      with Response True Body rc show ?thesis
        by (auto simp: upload_try_def and_then_fetch and_then_await Let_def snd_and_then)
    qed
  qed
qed

lemma upload_po_try_result:
  assumes "list_ex is_upload (fst (upload_po base64 e w req))"
  shows "\<exists>d name type buf.
           list_ex is_upload (fst (upload_try w d name type buf))
           \<and> snd (upload_po base64 e w req) =
               (case snd (upload_try w d name type buf) of
                  Inl err \<Rightarrow> Replied 500 (ErrorJson upload_failed_message (Some err))
                | Inr (st, b) \<Rightarrow> Replied st b)"
proof -
  let ?m = "upload_try w (text_of (dealId req)) (text_of (fileName req)) (fileType req)
               (base64 (base64Raw (text_of (fileData req))))"
  let ?h = "\<lambda>error. and_then (reportError w (asc ''/api/upload-po'') error) (\<lambda>u.
                 ret (500, ErrorJson upload_failed_message (Some error)))"
  from assms have "fst (upload_po base64 e w req) \<noteq> []" by auto
  with upload_po_cases [of base64 e w req]
  have eq: "upload_po base64 e w req = finish (try_catch ?m ?h)" by blast
  have calls: "fst (upload_po base64 e w req)
      = fst ?m @ (case snd ?m of Inl err \<Rightarrow> [ErrorAlert (asc ''/api/upload-po'') err] | Inr x \<Rightarrow> [])"
    by (simp add: eq fst_finish fst_try_catch reportError_calls and_then_def ret_def
        split: sum.splits)
  with assms have up: "list_ex is_upload (fst ?m)"
    by (auto simp: list_ex_iff split: sum.splits)
  have "snd (upload_po base64 e w req) =
               (case snd ?m of
                  Inl err \<Rightarrow> Replied 500 (ErrorJson upload_failed_message (Some err))
                | Inr (st, b) \<Rightarrow> Replied st b)"
    by (simp add: eq snd_finish snd_try_catch reportError_calls and_then_def ret_def
        split: sum.splits)
  with up show ?thesis by blast
qed

text \<open>
  What the code does for the failures it handles: when the note and the patch are each
  answered, with whatever status, and the answer's text can be read, the endpoint
  responds HTTP 200 with the URL of the uploaded file.
\<close>

lemma write_steps_status_not_fatal:
  assumes "list_ex is_upload (fst (upload_po base64 e w req))"
    and "w_upload w = Response st (Body data) tx" and "ok st"
    and "w_note w = Response nst njs (Body nt)"
    and "w_patch w = Response pst pjs (Body pt)"
  shows "snd (upload_po base64 e w req) = Replied 200 (UploadOk (file_url data))"
proof -
  obtain d name type buf where up: "list_ex is_upload (fst (upload_try w d name type buf))"
    and r: "snd (upload_po base64 e w req) =
               (case snd (upload_try w d name type buf) of
                  Inl err \<Rightarrow> Replied 500 (ErrorJson upload_failed_message (Some err))
                | Inr (st, b) \<Rightarrow> Replied st b)"
    using upload_po_try_result [OF assms(1)] by blast
  from upload_try_after [OF assms(2,3) up] after_upload_degrades [OF assms(4,5)]
  have "snd (upload_try w d name type buf) = Inr (200, UploadOk (file_url data))"
    by auto
  with r show ?thesis by simp
qed

lemma write_steps_status_not_fatal_example:
  "snd (upload_po example_decoder example_env steps_down_world example_request) =
     Replied 200 (UploadOk (Some (asc ''https://files.example/po.pdf'')))"
proof -
  have r: "list_ex is_upload
      (fst (upload_po example_decoder example_env steps_down_world example_request))"
    by (rule upload_reached_example) (simp add: steps_down_world_def example_world_def)
  have u: "w_upload steps_down_world = Response 201 (Body example_upload) (Body [])"
    by (simp add: steps_down_world_def example_world_def)
  have n: "w_note steps_down_world
      = Response 500 (Unreadable []) (Body (asc ''Internal Server Error''))"
    by (simp add: steps_down_world_def)
  have p: "w_patch steps_down_world
      = Response 500 (Unreadable []) (Body (asc ''Internal Server Error''))"
    by (simp add: steps_down_world_def)
  from write_steps_status_not_fatal [OF r u ok_examples(2) n p] show ?thesis
    by (simp add: example_upload_def)
qed

text \<open>
  Claim C7 (non-fatal write degradation) fails on the code where the note step fails by
  a network error: the upload has succeeded, the rejected \<open>fetch\<close> of the note is not
  caught at the step, and the handler's outer \<open>catch\<close> answers HTTP 500.
\<close>

theorem note_rejection_is_fatal:
  assumes "list_ex is_upload (fst (upload_po base64 e w req))"
    and "w_upload w = Response st (Body data) tx" and "ok st"
    and "w_note w = NetworkError m"
  shows "snd (upload_po base64 e w req) =
           Replied 500 (ErrorJson upload_failed_message (Some (Rejected m)))"
proof -
  obtain d name type buf where up: "list_ex is_upload (fst (upload_try w d name type buf))"
    and r: "snd (upload_po base64 e w req) =
               (case snd (upload_try w d name type buf) of
                  Inl err \<Rightarrow> Replied 500 (ErrorJson upload_failed_message (Some err))
                | Inr (st, b) \<Rightarrow> Replied st b)"
    using upload_po_try_result [OF assms(1)] by blast
  from upload_try_after [OF assms(2,3) up] after_upload_note_rejected [OF assms(4)]
  have "snd (upload_try w d name type buf) = Inl (Rejected m)"
    by auto
  with r show ?thesis by simp
qed

theorem note_rejection_is_fatal_witness:
  "list_ex is_upload (fst (upload_po example_decoder example_env note_down_world example_request))
   \<and> w_upload note_down_world = Response 201 (Body example_upload) (Body [])
   \<and> ok 201
   \<and> w_note note_down_world = NetworkError (asc ''fetch failed'')
   \<and> snd (upload_po example_decoder example_env note_down_world example_request) =
        Replied 500 (ErrorJson upload_failed_message (Some (Rejected (asc ''fetch failed''))))"
proof -
  have r: "list_ex is_upload
      (fst (upload_po example_decoder example_env note_down_world example_request))"
    by (rule upload_reached_example) (simp add: note_down_world_def example_world_def)
  have u: "w_upload note_down_world = Response 201 (Body example_upload) (Body [])"
    by (simp add: note_down_world_def example_world_def)
  have n: "w_note note_down_world = NetworkError (asc ''fetch failed'')"
    by (simp add: note_down_world_def)
  from r u n ok_examples(2) note_rejection_is_fatal [OF r u ok_examples(2) n]
  show ?thesis by blast
qed

end
